theory Spec2Isabelle
  imports Main "HOL-Library.Multiset"
begin

section \<open>BiblioDrift: the library manager\<close>

text \<open>
  A shallow embedding of the \<^verbatim>\<open>LibraryManager\<close> class of BiblioDrift's \<^verbatim>\<open>app.js\<close>
  (the version with backend synchronisation) and of the progress slider's input handler
  of \<^verbatim>\<open>BookRenderer.createBookElement\<close>.

  Conventions of the model:
  \<^item> a JavaScript object with string keys is an association list in the order in which
    \<^verbatim>\<open>for ... in\<close> enumerates its own keys; an object has every key once;
  \<^item> a property that is \<^verbatim>\<open>undefined\<close> and a property that is absent are the same value
    (\<open>None\<close>); \<^verbatim>\<open>JSON.stringify\<close> followed by \<^verbatim>\<open>JSON.parse\<close> is the identity on such
    values, so a string kept in \<^verbatim>\<open>localStorage\<close> is represented by what \<^verbatim>\<open>JSON.parse\<close>
    makes of it;
  \<^item> an exception is a value: a synchronous function that throws, and an \<^verbatim>\<open>async\<close>
    function whose promise is rejected, complete with \<open>Threw\<close>;
  \<^item> the answer of the remote service to a \<^verbatim>\<open>fetch\<close> is an argument of the operation
    that awaits it; the requests issued are appended to a trace;
  \<^item> \<^verbatim>\<open>localStorage.setItem\<close> is taken to succeed (no quota error), and logging to the
    console is not modelled.
\<close>

subsection \<open>Books\<close>

text \<open>The \<^verbatim>\<open>progress\<close> property: missing, \<^verbatim>\<open>null\<close>, or a number.\<close>

datatype progress = Absent | Null | Num int

record image_links =
  thumbnail :: "string option"

record volume_info =
  title :: string
  authors :: "string list option"
  imageLinks :: "image_links option"

text \<open>
  A book object as the renderer and the manager use it: \<^verbatim>\<open>id\<close> is the catalogue's
  identifier, \<^verbatim>\<open>db_id\<close> the identifier the backend gave the entry.
\<close>

record book =
  book_id :: string
  db_id :: "int option"
  volumeInfo :: volume_info
  progress :: progress

type_synonym shelves = "(string \<times> book list) list"

text \<open>
  The value of \<^verbatim>\<open>this.library\<close>: an object of shelf arrays, or a falsy value
  (\<^verbatim>\<open>null\<close>, \<^verbatim>\<open>false\<close>, \<^verbatim>\<open>0\<close>, the empty string), which the slider's handler can assign.
  Other values (a number, an array, an object whose properties are not arrays of books)
  are outside the model.
\<close>

datatype libval = Falsy | Obj shelves

subsection \<open>The stores, the session and the remote service\<close>

text \<open>
  An item of \<^verbatim>\<open>localStorage\<close> under the key \<^verbatim>\<open>bibliodrift_library\<close>: text on which
  \<^verbatim>\<open>JSON.parse\<close> throws, or the JSON text of a library value.
\<close>

datatype stored = Unparsable | Json libval

text \<open>
  An item under the key \<^verbatim>\<open>bibliodrift_user\<close>: text on which \<^verbatim>\<open>JSON.parse\<close> throws; the
  empty string or the JSON text of a falsy value; or a user record with its \<^verbatim>\<open>id\<close>.
\<close>

datatype user_item = UnparsableUser | FalsyUser | User int

datatype error = SyntaxError | TypeError

datatype 'a completion = Returned 'a | Threw error

text \<open>
  How the part of an \<^verbatim>\<open>async\<close> function before its first \<^verbatim>\<open>await\<close> ends: the function
  returns, throws, or has sent a request and awaits the answer.
\<close>

datatype part_end = Finished | Raised error | Awaiting

text \<open>The body of \<^verbatim>\<open>POST /library\<close>.\<close>

record payload =
  p_user_id :: int
  p_google_books_id :: string
  p_title :: string
  p_authors :: string
  p_thumbnail :: "string option"
  p_shelf_type :: string

datatype request = GetLibrary int | PostLibrary payload | DeleteItem int

text \<open>A record of the list that \<^verbatim>\<open>GET /library/{userId}\<close> returns.\<close>

record remote_item =
  item_id :: int
  google_books_id :: string
  item_title :: string
  item_authors :: "string option"
  item_thumbnail :: "string option"
  shelf_type :: string

text \<open>
  What awaiting \<^verbatim>\<open>fetch\<close> and \<^verbatim>\<open>res.json()\<close> gives: the transport fails; the status is
  not a success; the body is not JSON or has not the expected property (an exception
  inside the \<^verbatim>\<open>try\<close> block); or the body is read.
\<close>

datatype fetch_result = NetworkError | NotOk | BadBody | Listing "remote_item list"

datatype post_result = PostNetworkError | PostNotOk | PostBadBody | PostOk "int option"

text \<open>
  The state the operations read and write: the manager's \<^verbatim>\<open>library\<close>, the two items of
  \<^verbatim>\<open>localStorage\<close>, the flag \<^verbatim>\<open>bibliodrift_synced_once\<close> of \<^verbatim>\<open>sessionStorage\<close>, whether
  the page has the element \<^verbatim>\<open>shelf-want\<close>, the number of page reloads asked for, and
  the requests sent to the remote service.
\<close>

record world =
  library :: libval
  stored_library :: "stored option"
  stored_user :: "user_item option"
  synced_once :: bool
  on_library_page :: bool
  reloads :: nat
  requests :: "request list"

subsection \<open>Reading a property of an object\<close>

text \<open>
  \<^verbatim>\<open>obj[key]\<close> on an object literal or a parsed object finds the object's own property,
  and otherwise a property of \<^verbatim>\<open>Object.prototype\<close>; those are functions (and, for
  \<^verbatim>\<open>__proto__\<close>, the prototype object): truthy values without a \<^verbatim>\<open>push\<close> method.
\<close>

definition object_prototype_names :: "string list" where
  "object_prototype_names =
     [''constructor'', ''hasOwnProperty'', ''isPrototypeOf'', ''propertyIsEnumerable'',
      ''toLocaleString'', ''toString'', ''valueOf'', ''__proto__'',
      ''__defineGetter__'', ''__defineSetter__'', ''__lookupGetter__'', ''__lookupSetter__'']"

datatype 'a property = Own 'a | Inherited | Undefined

definition get_prop :: "(string \<times> 'a) list \<Rightarrow> string \<Rightarrow> 'a property" where
  "get_prop obj k =
     (case map_of obj k of
        Some v \<Rightarrow> Own v
      | None \<Rightarrow> if k \<in> set object_prototype_names then Inherited else Undefined)"

text \<open>Replacing the array under an own key by a function of it.\<close>

fun upd_shelf :: "string \<Rightarrow> (book list \<Rightarrow> book list) \<Rightarrow> shelves \<Rightarrow> shelves" where
  "upd_shelf shelf f [] = []"
| "upd_shelf shelf f ((k, bs) # rest) =
     (if k = shelf then (k, f bs) # rest else (k, bs) # upd_shelf shelf f rest)"

subsection \<open>LibraryManager\<close>

definition empty_shelves :: shelves where
  "empty_shelves = [(''current'', []), (''want'', []), (''finished'', [])]"

text \<open>
  \<^verbatim>\<open>JSON.parse(localStorage.getItem(this.storageKey)) || { current: [], want: [], finished: [] }\<close>:
  a missing item is \<^verbatim>\<open>null\<close>, which \<^verbatim>\<open>JSON.parse\<close> returns as \<^verbatim>\<open>null\<close>.
\<close>

definition hydrate :: "stored option \<Rightarrow> libval completion" where
  "hydrate item =
     (case item of
        None \<Rightarrow> Returned (Obj empty_shelves)
      | Some Unparsable \<Rightarrow> Threw SyntaxError
      | Some (Json Falsy) \<Rightarrow> Returned (Obj empty_shelves)
      | Some (Json (Obj s)) \<Rightarrow> Returned (Obj s))"

text \<open>
  \<^verbatim>\<open>getUser\<close>: \<^verbatim>\<open>userStr ? JSON.parse(userStr) : null\<close>. Its callers only test the
  result for truthiness and read \<^verbatim>\<open>id\<close>, so a falsy result is \<open>None\<close>.
\<close>

definition getUser :: "world \<Rightarrow> int option completion" where
  "getUser w =
     (case stored_user w of
        None \<Rightarrow> Returned None
      | Some UnparsableUser \<Rightarrow> Threw SyntaxError
      | Some FalsyUser \<Rightarrow> Returned None
      | Some (User u) \<Rightarrow> Returned (Some u))"

definition saveLocally :: "world \<Rightarrow> world" where
  "saveLocally w = w\<lparr>stored_library := Some (Json (library w))\<rparr>"

text \<open>\<^verbatim>\<open>findBook\<close>: the first shelf with a book of that id ends the loop.\<close>

fun findBook_shelves :: "shelves \<Rightarrow> string \<Rightarrow> bool" where
  "findBook_shelves [] i = False"
| "findBook_shelves ((k, bs) # rest) i =
     (if list_ex (\<lambda>b. book_id b = i) bs then True else findBook_shelves rest i)"

definition findBook :: "libval \<Rightarrow> string \<Rightarrow> bool" where
  "findBook l i = (case l of Falsy \<Rightarrow> False | Obj s \<Rightarrow> findBook_shelves s i)"

fun findBookInShelf_shelves :: "shelves \<Rightarrow> string \<Rightarrow> (string \<times> book) option" where
  "findBookInShelf_shelves [] i = None"
| "findBookInShelf_shelves ((k, bs) # rest) i =
     (case find (\<lambda>b. book_id b = i) bs of
        Some b \<Rightarrow> Some (k, b)
      | None \<Rightarrow> findBookInShelf_shelves rest i)"

definition findBookInShelf :: "libval \<Rightarrow> string \<Rightarrow> (string \<times> book) option" where
  "findBookInShelf l i = (case l of Falsy \<Rightarrow> None | Obj s \<Rightarrow> findBookInShelf_shelves s i)"

subsubsection \<open>addBook\<close>

text \<open>\<^verbatim>\<open>{ ...book, progress: shelf === 'current' ? 0 : null }\<close>\<close>

definition enrich :: "book \<Rightarrow> string \<Rightarrow> book" where
  "enrich bk shelf = bk\<lparr>progress := (if shelf = ''current'' then Num 0 else Null)\<rparr>"

text \<open>\<^verbatim>\<open>Array.prototype.join\<close> with a separator.\<close>

fun join :: "string \<Rightarrow> string list \<Rightarrow> string" where
  "join sep [] = []"
| "join sep [x] = x"
| "join sep (x # y # ys) = x @ sep @ join sep (y # ys)"

definition make_payload :: "int \<Rightarrow> book \<Rightarrow> string \<Rightarrow> payload" where
  "make_payload u bk shelf =
     \<lparr>p_user_id = u,
      p_google_books_id = book_id bk,
      p_title = title (volumeInfo bk),
      p_authors = (case authors (volumeInfo bk) of Some as \<Rightarrow> join '', '' as | None \<Rightarrow> []),
      p_thumbnail = (case imageLinks (volumeInfo bk) of Some il \<Rightarrow> thumbnail il | None \<Rightarrow> Some []),
      p_shelf_type = shelf\<rparr>"

text \<open>
  The part of \<^verbatim>\<open>addBook\<close> before its \<^verbatim>\<open>await\<close>: it returns (a duplicate, or no
  session), throws (no such shelf, or a session item that does not parse), or has pushed
  the book, stored the library and sent the \<^verbatim>\<open>POST\<close>.
\<close>

definition addBook_local :: "world \<Rightarrow> book \<Rightarrow> string \<Rightarrow> world \<times> part_end" where
  "addBook_local w bk shelf =
     (if findBook (library w) (book_id bk) then (w, Finished)
      else
        case library w of
          Falsy \<Rightarrow> (w, Raised TypeError)
        | Obj s \<Rightarrow>
            (case get_prop s shelf of
               Own bs \<Rightarrow>
                 (let w1 = saveLocally
                        (w\<lparr>library := Obj (upd_shelf shelf (\<lambda>xs. xs @ [enrich bk shelf]) s)\<rparr>)
                  in case getUser w1 of
                       Threw e \<Rightarrow> (w1, Raised e)
                     | Returned None \<Rightarrow> (w1, Finished)
                     | Returned (Some u) \<Rightarrow>
                         (w1\<lparr>requests := requests w1 @ [PostLibrary (make_payload u bk shelf)]\<rparr>,
                          Awaiting))
             | Inherited \<Rightarrow> (w, Raised TypeError)
             | Undefined \<Rightarrow> (w, Raised TypeError)))"

text \<open>
  The rest of \<^verbatim>\<open>addBook\<close>, once the \<^verbatim>\<open>POST\<close> is answered:
  \<^verbatim>\<open>enrichedBook.db_id = data.item.id; this.saveLocally()\<close> on success, nothing otherwise.
  \<^verbatim>\<open>enrichedBook\<close> is the object the synchronous part pushed; with nothing run in
  between, it is the last element of the shelf's array, and that is what is modelled.
\<close>

definition set_last_db_id :: "int option \<Rightarrow> book list \<Rightarrow> book list" where
  "set_last_db_id n bs = (if bs = [] then [] else butlast bs @ [(last bs)\<lparr>db_id := n\<rparr>])"

definition addBook_response :: "world \<Rightarrow> string \<Rightarrow> post_result \<Rightarrow> world" where
  "addBook_response w shelf r =
     (case r of
        PostOk n \<Rightarrow>
          (case library w of
             Falsy \<Rightarrow> saveLocally w
           | Obj s \<Rightarrow> saveLocally (w\<lparr>library := Obj (upd_shelf shelf (set_last_db_id n) s)\<rparr>))
      | _ \<Rightarrow> w)"

definition addBook :: "world \<Rightarrow> book \<Rightarrow> string \<Rightarrow> post_result \<Rightarrow> world \<times> unit completion" where
  "addBook w bk shelf r =
     (case addBook_local w bk shelf of
        (w1, Finished) \<Rightarrow> (w1, Returned ())
      | (w1, Raised e) \<Rightarrow> (w1, Threw e)
      | (w1, Awaiting) \<Rightarrow> (addBook_response w1 shelf r, Returned ()))"

subsubsection \<open>removeBook\<close>

text \<open>
  \<^verbatim>\<open>this.library[shelf] = this.library[shelf].filter(b => b.id !== id)\<close> on the shelf that
  \<^verbatim>\<open>findBookInShelf\<close> names; the remote \<^verbatim>\<open>DELETE\<close> is sent when there is a user and the
  book's \<^verbatim>\<open>db_id\<close> is truthy (a number other than 0), and its answer is ignored.
\<close>

definition truthy_db_id :: "book \<Rightarrow> int option" where
  "truthy_db_id bk = (case db_id bk of Some n \<Rightarrow> if n = 0 then None else Some n | None \<Rightarrow> None)"

definition removeBook :: "world \<Rightarrow> string \<Rightarrow> world \<times> bool completion" where
  "removeBook w i =
     (case library w of
        Falsy \<Rightarrow> (w, Returned False)
      | Obj s \<Rightarrow>
          (case findBookInShelf (Obj s) i of
             None \<Rightarrow> (w, Returned False)
           | Some (shelf, bk) \<Rightarrow>
               (let w1 = saveLocally
                      (w\<lparr>library := Obj (upd_shelf shelf (filter (\<lambda>b. book_id b \<noteq> i)) s)\<rparr>)
                in case getUser w1 of
                     Threw e \<Rightarrow> (w1, Threw e)
                   | Returned None \<Rightarrow> (w1, Returned True)
                   | Returned (Some u) \<Rightarrow>
                       (case truthy_db_id bk of
                          Some n \<Rightarrow> (w1\<lparr>requests := requests w1 @ [DeleteItem n]\<rparr>, Returned True)
                        | None \<Rightarrow> (w1, Returned True)))))"

subsubsection \<open>syncWithBackend\<close>

text \<open>\<^verbatim>\<open>item.authors.split(', ')\<close>, with the part read so far as accumulator.\<close>

fun split_comma :: "string \<Rightarrow> string \<Rightarrow> string list" where
  "split_comma acc [] = [acc]"
| "split_comma acc [c] = [acc @ [c]]"
| "split_comma acc (c # d # cs) =
     (if c = CHR '','' \<and> d = CHR '' '' then acc # split_comma [] cs
      else split_comma (acc @ [c]) (d # cs))"

text \<open>The book object built from a remote record; it has no \<^verbatim>\<open>progress\<close> property.\<close>

definition to_book :: "remote_item \<Rightarrow> book" where
  "to_book item =
     \<lparr>book_id = google_books_id item,
      db_id = Some (item_id item),
      volumeInfo =
        \<lparr>title = item_title item,
         authors = Some (case item_authors item of
                           None \<Rightarrow> []
                         | Some a \<Rightarrow> if a = [] then [] else split_comma [] a),
         imageLinks = Some \<lparr>thumbnail = item_thumbnail item\<rparr>\<rparr>,
      progress = Absent\<rparr>"

text \<open>
  The \<^verbatim>\<open>forEach\<close> over \<^verbatim>\<open>data.library\<close>:
  \<^verbatim>\<open>if (backendLibrary[item.shelf_type]) backendLibrary[item.shelf_type].push(book)\<close>.
  An own key holds an array (truthy, also when empty); an inherited property is truthy
  and has no \<^verbatim>\<open>push\<close>, so the call throws a \<^verbatim>\<open>TypeError\<close>; any other name is skipped.
\<close>

fun place_items :: "shelves \<Rightarrow> remote_item list \<Rightarrow> shelves completion" where
  "place_items backendLibrary [] = Returned backendLibrary"
| "place_items backendLibrary (item # items) =
     (case get_prop backendLibrary (shelf_type item) of
        Own bs \<Rightarrow>
          place_items (upd_shelf (shelf_type item) (\<lambda>xs. xs @ [to_book item]) backendLibrary) items
      | Inherited \<Rightarrow> Threw TypeError
      | Undefined \<Rightarrow> place_items backendLibrary items)"

text \<open>The reload of the library page, once per browser session.\<close>

definition reload_once :: "world \<Rightarrow> world" where
  "reload_once w =
     (if on_library_page w then
        (if \<not> synced_once w then w\<lparr>synced_once := True, reloads := Suc (reloads w)\<rparr> else w)
      else w)"

text \<open>
  What \<^verbatim>\<open>syncWithBackend\<close> does once the \<^verbatim>\<open>GET\<close> is answered. Every exception is caught
  and logged; the library is assigned only after the whole list has been placed.
\<close>

definition sync_response :: "world \<Rightarrow> fetch_result \<Rightarrow> world" where
  "sync_response w r =
     (case r of
        Listing items \<Rightarrow>
          (case place_items empty_shelves items of
             Threw e \<Rightarrow> w
           | Returned backendLibrary \<Rightarrow>
               if length items > 0
               then reload_once (saveLocally (w\<lparr>library := Obj backendLibrary\<rparr>))
               else w)
      | _ \<Rightarrow> w)"

text \<open>
  The part of \<^verbatim>\<open>syncWithBackend\<close> before the \<^verbatim>\<open>await\<close>: without a user it returns,
  with one it sends the \<^verbatim>\<open>GET\<close>.
\<close>

definition sync_start :: "world \<Rightarrow> world \<times> part_end" where
  "sync_start w =
     (case getUser w of
        Threw e \<Rightarrow> (w, Raised e)
      | Returned None \<Rightarrow> (w, Finished)
      | Returned (Some u) \<Rightarrow> (w\<lparr>requests := requests w @ [GetLibrary u]\<rparr>, Awaiting))"

definition syncWithBackend :: "world \<Rightarrow> fetch_result \<Rightarrow> world \<times> unit completion" where
  "syncWithBackend w r =
     (case sync_start w of
        (w1, Finished) \<Rightarrow> (w1, Returned ())
      | (w1, Raised e) \<Rightarrow> (w1, Threw e)
      | (w1, Awaiting) \<Rightarrow> (sync_response w1 r, Returned ()))"

subsubsection \<open>The constructor\<close>

text \<open>
  The constructor assigns the hydrated library and calls \<^verbatim>\<open>syncWithBackend\<close>, which runs
  up to its \<^verbatim>\<open>await\<close>; the constructor drops the promise, so a rejection of it is not an
  exception of the constructor. The answer to the \<^verbatim>\<open>GET\<close> is handled later, by
  \<open>sync_response\<close>.
\<close>

definition LibraryManager_constructor :: "world \<Rightarrow> world \<times> unit completion" where
  "LibraryManager_constructor w =
     (case hydrate (stored_library w) of
        Threw e \<Rightarrow> (w, Threw e)
      | Returned l \<Rightarrow> (fst (sync_start (w\<lparr>library := l\<rparr>)), Returned ()))"

subsection \<open>The progress slider\<close>


text \<open>
  The value of that range input when it is asked to take the number \<open>v\<close>, by the user
  or by a script: an input of type \<^verbatim>\<open>range\<close> keeps its value between its \<^verbatim>\<open>min\<close> and
  its \<^verbatim>\<open>max\<close>, here 0 and 100, and its step is 1.
\<close>

definition slider_value :: "int \<Rightarrow> int" where
  "slider_value v = (if v < 0 then 0 else if 100 < v then 100 else v)"

fun set_first_progress :: "string \<Rightarrow> int \<Rightarrow> book list \<Rightarrow> book list" where
  "set_first_progress i v [] = []"
| "set_first_progress i v (b # bs) =
     (if book_id b = i then b\<lparr>progress := Num v\<rparr> # bs else b # set_first_progress i v bs)"

fun set_progress :: "string \<Rightarrow> int \<Rightarrow> shelves \<Rightarrow> shelves" where
  "set_progress i v [] = []"
| "set_progress i v ((k, bs) # rest) =
     (if list_ex (\<lambda>b. book_id b = i) bs then (k, set_first_progress i v bs) # rest
      else (k, bs) # set_progress i v rest)"

text \<open>
  The handler of the slider's \<^verbatim>\<open>input\<close> event, for the book \<^verbatim>\<open>id\<close> the element was made
  for, when the slider has been asked to take \<open>v\<close>:
  \<^verbatim>\<open>parseInt(e.target.value, 10)\<close> is the slider's value. The handler parses the stored
  library, sets \<^verbatim>\<open>progress\<close> on the first book with that id of the first shelf that has
  one, assigns the parsed value to the manager's \<^verbatim>\<open>library\<close> and stores it again.
\<close>

definition progress_slider_input :: "world \<Rightarrow> string \<Rightarrow> int \<Rightarrow> world \<times> unit completion" where
  "progress_slider_input w i v =
     (case stored_library w of
        None \<Rightarrow> (w\<lparr>library := Falsy, stored_library := Some (Json Falsy)\<rparr>, Returned ())
      | Some Unparsable \<Rightarrow> (w, Threw SyntaxError)
      | Some (Json Falsy) \<Rightarrow>
          (w\<lparr>library := Falsy, stored_library := Some (Json Falsy)\<rparr>, Returned ())
      | Some (Json (Obj s)) \<Rightarrow>
          (w\<lparr>library := Obj (set_progress i (slider_value v) s),
             stored_library := Some (Json (Obj (set_progress i (slider_value v) s)))\<rparr>,
           Returned ()))"


subsection \<open>The shelf state and its invariant\<close>

text \<open>The books and the ids on the shelves, shelf after shelf.\<close>

definition all_books :: "shelves \<Rightarrow> book list" where
  "all_books s = concat (map snd s)"

definition all_ids :: "shelves \<Rightarrow> string list" where
  "all_ids s = map book_id (all_books s)"

definition ids_of :: "libval \<Rightarrow> string list" where
  "ids_of l = (case l of Falsy \<Rightarrow> [] | Obj s \<Rightarrow> all_ids s)"

text \<open>
  The invariant of the shelf state: no id on two shelves, none twice on a shelf. The
  list of all ids has no repetition exactly when both hold.
\<close>

definition unique_ids :: "libval \<Rightarrow> bool" where
  "unique_ids l = distinct (ids_of l)"

text \<open>The number of shelves that hold a book of the id.\<close>

definition holders :: "shelves \<Rightarrow> string \<Rightarrow> nat" where
  "holders s i = length (filter (\<lambda>kb. list_ex (\<lambda>b. book_id b = i) (snd kb)) s)"

text \<open>The books of a shelf (\<^verbatim>\<open>this.library[shelf]\<close> for an own key).\<close>

definition shelf_books :: "libval \<Rightarrow> string \<Rightarrow> book list" where
  "shelf_books l shelf =
     (case l of Falsy \<Rightarrow> [] | Obj s \<Rightarrow> (case map_of s shelf of Some bs \<Rightarrow> bs | None \<Rightarrow> []))"

text \<open>The names of the own properties of the library object.\<close>

definition shelf_names :: "libval \<Rightarrow> string list" where
  "shelf_names l = (case l of Falsy \<Rightarrow> [] | Obj s \<Rightarrow> map fst s)"

text \<open>
  The local store agrees with the manager: the stored item is the library in memory, and
  a manager constructed now would hydrate exactly that library.
\<close>

definition in_sync :: "world \<Rightarrow> bool" where
  "in_sync w =
     (stored_library w = Some (Json (library w))
      \<and> hydrate (stored_library w) = Returned (library w))"

text \<open>A run of \<^verbatim>\<open>addBook\<close> calls, each with the answer its \<^verbatim>\<open>POST\<close> gets (if one is sent).\<close>

fun addBooks :: "world \<Rightarrow> (book \<times> string \<times> post_result) list \<Rightarrow> world" where
  "addBooks w [] = w"
| "addBooks w ((bk, shelf, r) # calls) = addBooks (fst (addBook w bk shelf r)) calls"

subsection \<open>What the specification says of a replacing sync\<close>

text \<open>
  The three shelf names the specification recognises, and the remote records grouped by
  their shelf type, in the order of the remote list: the shelf state the specification
  describes after a sync that received a list with at least one record.
\<close>

definition recognized :: "string \<Rightarrow> bool" where
  "recognized name = (name = ''current'' \<or> name = ''want'' \<or> name = ''finished'')"

definition grouped_by_shelf_type :: "remote_item list \<Rightarrow> shelves" where
  "grouped_by_shelf_type items =
     map (\<lambda>name. (name, map to_book (filter (\<lambda>item. shelf_type item = name) items)))
       [''current'', ''want'', ''finished'']"

subsection \<open>Sample data\<close>

definition sample_book :: "string \<Rightarrow> book" where
  "sample_book i =
     \<lparr>book_id = i, db_id = None,
      volumeInfo = \<lparr>title = ''Emma'', authors = Some [''Jane Austen''], imageLinks = None\<rparr>,
      progress = Absent\<rparr>"

definition sample_item :: "int \<Rightarrow> string \<Rightarrow> string \<Rightarrow> remote_item" where
  "sample_item n i shelf =
     \<lparr>item_id = n, google_books_id = i, item_title = ''Emma'',
      item_authors = Some ''Jane Austen'', item_thumbnail = None, shelf_type = shelf\<rparr>"

text \<open>The world of a page just opened, with nothing stored.\<close>

definition fresh_world :: world where
  "fresh_world =
     \<lparr>library = Obj empty_shelves, stored_library = None, stored_user = None,
      synced_once = False, on_library_page = False, reloads = 0, requests = []\<rparr>"

text \<open>A world with a session, whose library holds \<open>B1\<close> on the shelf \<open>want\<close>, stored.\<close>

definition one_book_world :: world where
  "one_book_world =
     \<lparr>library = Obj [(''current'', []), (''want'', [sample_book ''B1'']), (''finished'', [])],
      stored_library =
        Some (Json (Obj [(''current'', []), (''want'', [sample_book ''B1'']), (''finished'', [])])),
      stored_user = Some (User 7),
      synced_once = False, on_library_page = False, reloads = 0, requests = []\<rparr>"

text \<open>A world without a session, whose library holds \<open>B1\<close> on the shelf \<open>current\<close>, stored.\<close>

definition reading_world :: world where
  "reading_world =
     \<lparr>library = Obj [(''current'', [(sample_book ''B1'')\<lparr>progress := Num 0\<rparr>]),
                      (''want'', []), (''finished'', [])],
      stored_library =
        Some (Json (Obj [(''current'', [(sample_book ''B1'')\<lparr>progress := Num 0\<rparr>]),
                         (''want'', []), (''finished'', [])])),
      stored_user = None,
      synced_once = False, on_library_page = False, reloads = 0, requests = []\<rparr>"

text \<open>
  The world after a sync of \<open>one_book_world\<close> that received \<open>B2\<close> twice, for the
  shelves \<open>current\<close> and \<open>want\<close>.
\<close>

definition twice_synced_world :: world where
  "twice_synced_world =
     fst (syncWithBackend one_book_world
       (Listing [sample_item 1 ''B2'' ''current'', sample_item 2 ''B2'' ''want'']))"

section \<open>Properties\<close>

subsection \<open>Ids on the shelves\<close>

lemma all_ids_Nil: "all_ids [] = []"
  by (simp add: all_ids_def all_books_def)

lemma all_ids_Cons: "all_ids ((k, bs) # rest) = map book_id bs @ all_ids rest"
  by (simp add: all_ids_def all_books_def)

lemma findBook_shelves_iff: "findBook_shelves s i \<longleftrightarrow> i \<in> set (all_ids s)"
  by (induction s i rule: findBook_shelves.induct)
     (auto simp: all_ids_Cons all_ids_Nil list_ex_iff)

lemma findBook_iff: "findBook l i \<longleftrightarrow> i \<in> set (ids_of l)"
  by (simp add: findBook_def ids_of_def findBook_shelves_iff split: libval.splits)

lemma upd_shelf_keys: "map fst (upd_shelf shelf f s) = map fst s"
  by (induction shelf f s rule: upd_shelf.induct) auto

lemma all_ids_upd_shelf_same:
  "(\<And>bs. map book_id (f bs) = map book_id bs) \<Longrightarrow> all_ids (upd_shelf shelf f s) = all_ids s"
  by (induction shelf f s rule: upd_shelf.induct) (auto simp: all_ids_Cons all_ids_Nil)

lemma set_all_ids_push:
  "shelf \<in> fst ` set s \<Longrightarrow>
   set (all_ids (upd_shelf shelf (\<lambda>xs. xs @ [b]) s)) = insert (book_id b) (set (all_ids s))"
proof (induction s)
  case Nil
  then show ?case by simp
next
  case (Cons kb s)
  obtain k bs where kb: "kb = (k, bs)" by (cases kb)
  show ?case
  proof (cases "k = shelf")
    case True
    then show ?thesis by (auto simp: kb all_ids_Cons)
  next
    case False
    with Cons.prems have mem: "shelf \<in> fst ` set s" by (auto simp: kb)
    from False show ?thesis
      using Cons.IH[OF mem] by (auto simp: kb all_ids_Cons)
  qed
qed

lemma distinct_all_ids_push:
  "shelf \<in> fst ` set s \<Longrightarrow>
   distinct (all_ids (upd_shelf shelf (\<lambda>xs. xs @ [b]) s)) \<longleftrightarrow>
     distinct (all_ids s) \<and> book_id b \<notin> set (all_ids s)"
proof (induction s)
  case Nil
  then show ?case by simp
next
  case (Cons kb s)
  obtain k bs where kb: "kb = (k, bs)" by (cases kb)
  show ?case
  proof (cases "k = shelf")
    case True
    then show ?thesis by (auto simp: kb all_ids_Cons)
  next
    case False
    with Cons.prems have mem: "shelf \<in> fst ` set s" by (auto simp: kb)
    from False show ?thesis
      using Cons.IH[OF mem] set_all_ids_push[OF mem, of b]
      by (auto simp: kb all_ids_Cons)
  qed
qed

lemma map_of_Some_key: "map_of s shelf = Some bs \<Longrightarrow> shelf \<in> fst ` set s"
  by (metis domI dom_map_of_conv_image_fst)

lemma get_prop_Own_iff: "(\<exists>bs. get_prop s shelf = Own bs) \<longleftrightarrow> shelf \<in> fst ` set s"
proof (cases "map_of s shelf")
  case None
  then have "shelf \<notin> fst ` set s" by (simp add: map_of_eq_None_iff)
  with None show ?thesis by (simp add: get_prop_def)
next
  case (Some bs)
  then show ?thesis by (simp add: get_prop_def map_of_Some_key)
qed

lemma map_book_id_set_last: "map book_id (set_last_db_id n bs) = map book_id bs"
proof (cases "bs = []")
  case True
  then show ?thesis by (simp add: set_last_db_id_def)
next
  case False
  then have "bs = butlast bs @ [last bs]" by simp
  then have "map book_id bs = map book_id (butlast bs) @ [book_id (last bs)]"
    by (metis list.simps(8,9) map_append)
  with False show ?thesis by (simp add: set_last_db_id_def)
qed

subsection \<open>addBook keeps the ids unique\<close>

lemma ids_of_addBook_response: "ids_of (library (addBook_response w shelf r)) = ids_of (library w)"
  by (auto simp: addBook_response_def ids_of_def saveLocally_def
        all_ids_upd_shelf_same map_book_id_set_last split: post_result.splits libval.splits)

lemma addBook_local_unique:
  "unique_ids (library w) \<Longrightarrow> unique_ids (library (fst (addBook_local w bk shelf)))"
  by (auto simp: addBook_local_def unique_ids_def ids_of_def saveLocally_def get_prop_def
        getUser_def findBook_iff distinct_all_ids_push map_of_Some_key enrich_def
        split: libval.splits option.splits user_item.splits if_splits)

lemma addBook_unique:
  "unique_ids (library w) \<Longrightarrow> unique_ids (library (fst (addBook w bk shelf r)))"
  using addBook_local_unique[of w bk shelf]
  by (auto simp: addBook_def unique_ids_def ids_of_addBook_response
        split: prod.splits part_end.splits)

lemma addBooks_unique:
  "unique_ids (library w) \<Longrightarrow> unique_ids (library (addBooks w calls))"
  by (induction w calls rule: addBooks.induct) (auto simp: addBook_unique)

text \<open>What the invariant says, shelf by shelf.\<close>

lemma unique_ids_shelf:
  "unique_ids (Obj s) \<Longrightarrow> (k, bs) \<in> set s \<Longrightarrow> distinct (map book_id bs)"
  by (induction s) (auto simp: unique_ids_def ids_of_def all_ids_Cons)

lemma unique_ids_two_shelves:
  "unique_ids (Obj (xs @ (k, bs) # ys @ (k', bs') # zs)) \<Longrightarrow>
   book_id ` set bs \<inter> book_id ` set bs' = {}"
  by (auto simp: unique_ids_def ids_of_def all_ids_def all_books_def)

text \<open>
  C1. Whatever sequence of \<^verbatim>\<open>addBook\<close> calls is made on a manager whose shelves are the
  three empty ones, with whatever answers of the remote service, no id is afterwards on
  two shelves or twice on one. (The calls may name any shelf: one that names no shelf of
  the library changes nothing.)
\<close>

theorem addBook_sequences_keep_ids_unique:
  "library w = Obj empty_shelves \<Longrightarrow> unique_ids (library (addBooks w calls))"
proof -
  assume "library w = Obj empty_shelves"
  then have "unique_ids (library w)"
    by (simp add: unique_ids_def ids_of_def empty_shelves_def all_ids_Cons all_ids_Nil)
  then show ?thesis by (rule addBooks_unique)
qed

theorem addBook_sequences_keep_ids_unique_witness:
  "library fresh_world = Obj empty_shelves
   \<and> unique_ids (library (addBooks fresh_world
        [(sample_book ''B1'', ''want'', PostNotOk),
         (sample_book ''B1'', ''current'', PostOk (Some 3)),
         (sample_book ''B2'', ''current'', PostNetworkError)]))
   \<and> ids_of (library (addBooks fresh_world
        [(sample_book ''B1'', ''want'', PostNotOk),
         (sample_book ''B1'', ''current'', PostOk (Some 3)),
         (sample_book ''B2'', ''current'', PostNetworkError)])) = [''B2'', ''B1'']"
proof -
  have h: "library fresh_world = Obj empty_shelves"
    by (simp add: fresh_world_def)
  have e: "ids_of (library (addBooks fresh_world
        [(sample_book ''B1'', ''want'', PostNotOk),
         (sample_book ''B1'', ''current'', PostOk (Some 3)),
         (sample_book ''B2'', ''current'', PostNetworkError)])) = [''B2'', ''B1'']"
    by code_simp
  from h addBook_sequences_keep_ids_unique[OF h] e show ?thesis by blast
qed

subsection \<open>Adding a duplicate\<close>

lemma findBook_after_addBook_local:
  "snd (addBook_local w bk shelf) \<noteq> Raised TypeError \<Longrightarrow>
   findBook (library (fst (addBook_local w bk shelf))) (book_id bk)"
  by (auto simp: addBook_local_def findBook_iff ids_of_def saveLocally_def get_prop_def
        getUser_def set_all_ids_push map_of_Some_key enrich_def
        split: libval.splits option.splits user_item.splits if_splits)

lemma findBook_after_addBook:
  "snd (addBook w bk shelf r) \<noteq> Threw TypeError \<Longrightarrow>
   findBook (library (fst (addBook w bk shelf r))) (book_id bk)"
  using findBook_after_addBook_local[of w bk shelf]
  by (auto simp: addBook_def findBook_iff ids_of_addBook_response
        split: prod.splits part_end.splits)

lemma addBook_found: "findBook (library w) (book_id bk) \<Longrightarrow> addBook w bk shelf r = (w, Returned ())"
  by (simp add: addBook_def addBook_local_def)

text \<open>
  C4. \<^verbatim>\<open>addBook\<close> with a book whose id is on a shelf returns and leaves the whole world as
  it was: the library, the stored library, and the trace of requests (no \<^verbatim>\<open>POST\<close>). So
  after an \<^verbatim>\<open>addBook\<close> that did not throw a \<^verbatim>\<open>TypeError\<close>, a second one for the same id,
  with any shelf and any answer, changes nothing.
\<close>

theorem addBook_duplicate_is_noop:
  "(findBook (library w) (book_id bk) \<longrightarrow> addBook w bk shelf r = (w, Returned ()))
   \<and> (snd (addBook w bk shelf r) \<noteq> Threw TypeError \<and> book_id bk' = book_id bk \<longrightarrow>
        addBook (fst (addBook w bk shelf r)) bk' shelf' r' =
          (fst (addBook w bk shelf r), Returned ()))"
proof (intro conjI impI)
  assume "findBook (library w) (book_id bk)"
  then show "addBook w bk shelf r = (w, Returned ())" by (rule addBook_found)
next
  assume a: "snd (addBook w bk shelf r) \<noteq> Threw TypeError \<and> book_id bk' = book_id bk"
  then have "findBook (library (fst (addBook w bk shelf r))) (book_id bk')"
    using findBook_after_addBook[of w bk shelf r] by simp
  then show "addBook (fst (addBook w bk shelf r)) bk' shelf' r' =
          (fst (addBook w bk shelf r), Returned ())"
    by (rule addBook_found)
qed

theorem addBook_duplicate_is_noop_witness:
  "findBook (library one_book_world) (book_id (sample_book ''B1''))
   \<and> addBook one_book_world (sample_book ''B1'') ''current'' (PostOk (Some 4)) =
       (one_book_world, Returned ())
   \<and> snd (addBook fresh_world (sample_book ''B1'') ''want'' PostNotOk) \<noteq> Threw TypeError
   \<and> addBook (fst (addBook fresh_world (sample_book ''B1'') ''want'' PostNotOk))
        (sample_book ''B1'') ''current'' PostNotOk =
       (fst (addBook fresh_world (sample_book ''B1'') ''want'' PostNotOk), Returned ())"
proof -
  have f: "findBook (library one_book_world) (book_id (sample_book ''B1''))"
    by code_simp
  have n: "snd (addBook fresh_world (sample_book ''B1'') ''want'' PostNotOk) \<noteq> Threw TypeError"
    by code_simp
  note t = addBook_duplicate_is_noop[of one_book_world "sample_book ''B1''" "''current''"
      "PostOk (Some 4)"]
  note u = addBook_duplicate_is_noop[of fresh_world "sample_book ''B1''" "''want''" PostNotOk
      "sample_book ''B1''" "''current''" PostNotOk]
  from f t have 1: "addBook one_book_world (sample_book ''B1'') ''current'' (PostOk (Some 4)) =
       (one_book_world, Returned ())" by blast
  from n u have 2: "addBook (fst (addBook fresh_world (sample_book ''B1'') ''want'' PostNotOk))
        (sample_book ''B1'') ''current'' PostNotOk =
       (fst (addBook fresh_world (sample_book ''B1'') ''want'' PostNotOk), Returned ())" by blast
  from f 1 n 2 show ?thesis by blast
qed

subsection \<open>A sync that changes nothing\<close>

text \<open>
  C3. Without a session \<^verbatim>\<open>syncWithBackend\<close> returns and the world is as before. With a
  session, when the fetch fails in transport, or answers with a status that is not a
  success, or answers with an empty list, it returns and only the trace of requests has
  grown: the library and the stored library are as before. No exception leaves it.
\<close>

theorem sync_without_effect:
  "(getUser w = Returned None \<longrightarrow> syncWithBackend w r = (w, Returned ()))
   \<and> (getUser w = Returned (Some u) \<and> (r = NetworkError \<or> r = NotOk \<or> r = Listing []) \<longrightarrow>
        syncWithBackend w r = (w\<lparr>requests := requests w @ [GetLibrary u]\<rparr>, Returned ())
        \<and> library (fst (syncWithBackend w r)) = library w
        \<and> stored_library (fst (syncWithBackend w r)) = stored_library w)"
  by (auto simp: syncWithBackend_def sync_start_def sync_response_def)

theorem sync_without_effect_witness:
  "getUser fresh_world = Returned None
   \<and> syncWithBackend fresh_world (Listing [sample_item 1 ''B1'' ''want'']) =
       (fresh_world, Returned ())
   \<and> getUser one_book_world = Returned (Some 7)
   \<and> syncWithBackend one_book_world NetworkError =
       (one_book_world\<lparr>requests := [GetLibrary 7]\<rparr>, Returned ())
   \<and> library (fst (syncWithBackend one_book_world NotOk)) = library one_book_world
   \<and> stored_library (fst (syncWithBackend one_book_world (Listing []))) =
       stored_library one_book_world"
proof -
  have a: "getUser fresh_world = Returned None"
    by (simp add: getUser_def fresh_world_def)
  have b: "getUser one_book_world = Returned (Some 7)"
    by (simp add: getUser_def one_book_world_def)
  have r: "requests one_book_world @ [GetLibrary 7] = [GetLibrary 7]"
    by (simp add: one_book_world_def)
  from a sync_without_effect[where w = fresh_world and r = "Listing [sample_item 1 ''B1'' ''want'']"]
  have 1: "syncWithBackend fresh_world (Listing [sample_item 1 ''B1'' ''want'']) =
       (fresh_world, Returned ())" by blast
  from b sync_without_effect[where w = one_book_world and u = 7 and r = NetworkError]
  have 2: "syncWithBackend one_book_world NetworkError =
       (one_book_world\<lparr>requests := [GetLibrary 7]\<rparr>, Returned ())"
    unfolding r by blast
  from b sync_without_effect[where w = one_book_world and u = 7 and r = NotOk]
  have 3: "library (fst (syncWithBackend one_book_world NotOk)) = library one_book_world"
    by blast
  from b sync_without_effect[where w = one_book_world and u = 7 and r = "Listing []"]
  have 4: "stored_library (fst (syncWithBackend one_book_world (Listing []))) =
       stored_library one_book_world" by blast
  from a 1 b 2 3 4 show ?thesis by blast
qed

subsection \<open>Hydration\<close>

text \<open>
  C6. The claim fails for a stored item that is not JSON text: \<^verbatim>\<open>JSON.parse\<close> throws, the
  constructor has no handler, and no manager is made, where the claim has the item
  discarded and the three empty shelves assigned.
\<close>

theorem constructor_throws_on_unparsable_item:
  "hydrate (Some Unparsable) = Threw SyntaxError
   \<and> LibraryManager_constructor (fresh_world\<lparr>stored_library := Some Unparsable\<rparr>) =
       (fresh_world\<lparr>stored_library := Some Unparsable\<rparr>, Threw SyntaxError)
   \<and> hydrate (Some Unparsable) \<noteq> Returned (Obj empty_shelves)"
  by (simp add: hydrate_def LibraryManager_constructor_def)

text \<open>
  For the other items the constructor does what the claim says: a missing item, and the
  JSON text of a falsy value, give the three empty shelves; a stored object is taken as
  it is.
\<close>

lemma hydration_defaults:
  "(stored_library w = None \<or> stored_library w = Some (Json Falsy) \<longrightarrow>
        snd (LibraryManager_constructor w) = Returned ()
        \<and> library (fst (LibraryManager_constructor w)) = Obj empty_shelves
        \<and> (getUser w = Returned None \<longrightarrow>
             fst (LibraryManager_constructor w) = w\<lparr>library := Obj empty_shelves\<rparr>))
   \<and> (stored_library w = Some (Json (Obj s)) \<longrightarrow>
        snd (LibraryManager_constructor w) = Returned ()
        \<and> library (fst (LibraryManager_constructor w)) = Obj s)"
  by (auto simp: hydrate_def LibraryManager_constructor_def sync_start_def getUser_def
        split: option.splits user_item.splits)

subsection \<open>A shelf name the library has not\<close>

lemma recognized_iff: "recognized n \<longleftrightarrow> n \<in> set [''current'', ''want'', ''finished'']"
  by (auto simp: recognized_def)

lemma shelf_names_empty_shelves:
  "shelf_names (Obj empty_shelves) = [''current'', ''want'', ''finished'']"
  by (simp add: shelf_names_def empty_shelves_def)

lemma addBook_TypeError_iff:
  "\<not> findBook (library w) (book_id bk) \<Longrightarrow>
   snd (addBook w bk shelf r) = Threw TypeError \<longleftrightarrow> shelf \<notin> set (shelf_names (library w))"
proof (cases "library w")
  case Falsy
  then show ?thesis
    by (simp add: addBook_def addBook_local_def shelf_names_def findBook_def)
next
  case (Obj s)
  assume nf: "\<not> findBook (library w) (book_id bk)"
  show ?thesis
  proof (cases "shelf \<in> fst ` set s")
    case True
    then obtain bs where "get_prop s shelf = Own bs"
      using get_prop_Own_iff[of s shelf] by blast
    with nf Obj True show ?thesis
      by (auto simp: addBook_def addBook_local_def shelf_names_def getUser_def Let_def
            split: option.splits user_item.splits)
  next
    case False
    then have "\<And>bs. get_prop s shelf \<noteq> Own bs"
      using get_prop_Own_iff[of s shelf] by blast
    with nf Obj False show ?thesis
      by (auto simp: addBook_def addBook_local_def shelf_names_def split: property.splits)
  qed
qed

lemma addBook_unknown_shelf:
  assumes "\<not> findBook (library w) (book_id bk)" "shelf \<notin> set (shelf_names (library w))"
  shows "addBook w bk shelf r = (w, Threw TypeError)"
proof (cases "library w")
  case Falsy
  with assms show ?thesis by (simp add: addBook_def addBook_local_def)
next
  case (Obj s)
  with assms have "\<And>bs. get_prop s shelf \<noteq> Own bs"
    using get_prop_Own_iff[of s shelf] by (auto simp: shelf_names_def)
  with assms Obj show ?thesis
    by (auto simp: addBook_def addBook_local_def split: property.splits)
qed

text \<open>
  C10, as the claim states it, fails for a book whose id is already on a shelf: the
  duplicate check comes first, and the call returns without an exception.
\<close>

theorem addBook_unknown_shelf_counterexample:
  "\<not> recognized ''favorites''
   \<and> addBook one_book_world (sample_book ''B1'') ''favorites'' PostNotOk =
       (one_book_world, Returned ())"
  by (simp add: recognized_def addBook_found findBook_iff ids_of_def one_book_world_def
        all_ids_Cons all_ids_Nil sample_book_def)

text \<open>
  C10, amended. For a book whose id is on no shelf, \<^verbatim>\<open>addBook\<close> with a shelf name that is
  not a name of the library's shelves throws a \<^verbatim>\<open>TypeError\<close> and leaves the world as it
  was (no shelf changed, nothing stored, no request); and a \<^verbatim>\<open>TypeError\<close> is thrown only
  then. For the three shelves of the shelf state the names are \<open>current\<close>, \<open>want\<close>
  and \<open>finished\<close>.
\<close>

theorem addBook_unknown_shelf_throws:
  "\<not> findBook (library w) (book_id bk) \<longrightarrow>
     (shelf \<notin> set (shelf_names (library w)) \<longrightarrow> addBook w bk shelf r = (w, Threw TypeError))
     \<and> (snd (addBook w bk shelf r) = Threw TypeError \<longleftrightarrow> shelf \<notin> set (shelf_names (library w)))
     \<and> (shelf_names (library w) = [''current'', ''want'', ''finished''] \<longrightarrow>
          (shelf \<in> set (shelf_names (library w)) \<longleftrightarrow> recognized shelf))"
  using addBook_unknown_shelf[of w bk shelf r] addBook_TypeError_iff[of w bk shelf r]
    recognized_iff[of shelf]
  by auto

theorem addBook_unknown_shelf_throws_witness:
  "\<not> findBook (library one_book_world) (book_id (sample_book ''B2''))
   \<and> ''favorites'' \<notin> set (shelf_names (library one_book_world))
   \<and> addBook one_book_world (sample_book ''B2'') ''favorites'' (PostOk (Some 1)) =
       (one_book_world, Threw TypeError)
   \<and> ''want'' \<in> set (shelf_names (library one_book_world))
   \<and> snd (addBook one_book_world (sample_book ''B2'') ''want'' (PostOk (Some 1))) \<noteq> Threw TypeError"
proof -
  have nf: "\<not> findBook (library one_book_world) (book_id (sample_book ''B2''))"
    by code_simp
  have ns: "''favorites'' \<notin> set (shelf_names (library one_book_world))"
    by (simp add: shelf_names_def one_book_world_def)
  have ws: "''want'' \<in> set (shelf_names (library one_book_world))"
    by (simp add: shelf_names_def one_book_world_def)
  from nf ns addBook_unknown_shelf_throws[of one_book_world "sample_book ''B2''" "''favorites''"
      "PostOk (Some 1)"]
  have 1: "addBook one_book_world (sample_book ''B2'') ''favorites'' (PostOk (Some 1)) =
       (one_book_world, Threw TypeError)" by blast
  from nf ws addBook_unknown_shelf_throws[of one_book_world "sample_book ''B2''" "''want''"
      "PostOk (Some 1)"]
  have 2: "snd (addBook one_book_world (sample_book ''B2'') ''want'' (PostOk (Some 1))) \<noteq>
      Threw TypeError" by blast
  from nf ns 1 ws 2 show ?thesis by blast
qed

subsection \<open>The local store follows every mutation\<close>

lemma map_of_upd_shelf:
  "map_of (upd_shelf k f s) k' = (if k' = k then map_option f (map_of s k) else map_of s k')"
  by (induction k f s rule: upd_shelf.induct) auto

lemma in_sync_saveLocally: "library w = Obj s \<Longrightarrow> in_sync (saveLocally w)"
  by (simp add: in_sync_def saveLocally_def hydrate_def)

lemma in_sync_cong:
  "library w' = library w \<Longrightarrow> stored_library w' = stored_library w \<Longrightarrow> in_sync w \<Longrightarrow>
   in_sync w'"
  unfolding in_sync_def by metis

text \<open>A manager constructed in a world that is in sync holds the library of the running one.\<close>

lemma in_sync_constructor:
  "in_sync w \<Longrightarrow>
   snd (LibraryManager_constructor w) = Returned ()
   \<and> library (fst (LibraryManager_constructor w)) = library w"
  by (auto simp: in_sync_def LibraryManager_constructor_def sync_start_def
        split: completion.splits option.splits)

lemma addBook_local_adds:
  assumes "shelf \<in> set (shelf_names (library w))" "\<not> findBook (library w) (book_id bk)"
  shows "in_sync (fst (addBook_local w bk shelf))"
    and "shelf_books (library (fst (addBook_local w bk shelf))) shelf =
           shelf_books (library w) shelf @ [enrich bk shelf]"
    and "\<exists>s. library (fst (addBook_local w bk shelf)) = Obj s"
proof -
  from assms(1) obtain s where s: "library w = Obj s" "shelf \<in> fst ` set s"
    by (cases "library w") (auto simp: shelf_names_def)
  then obtain bs where bs: "get_prop s shelf = Own bs"
    using get_prop_Own_iff[of s shelf] by blast
  then have m: "map_of s shelf = Some bs"
    by (auto simp: get_prop_def split: option.splits if_splits)
  let ?w1 = "saveLocally (w\<lparr>library := Obj (upd_shelf shelf (\<lambda>xs. xs @ [enrich bk shelf]) s)\<rparr>)"
  have l: "library (fst (addBook_local w bk shelf)) = library ?w1"
    and st: "stored_library (fst (addBook_local w bk shelf)) = stored_library ?w1"
    using assms(2) s bs
    by (auto simp: addBook_local_def Let_def saveLocally_def
          split: completion.splits option.splits)
  have "in_sync ?w1" by (rule in_sync_saveLocally) simp
  with l st show "in_sync (fst (addBook_local w bk shelf))" by (rule in_sync_cong)
  from l s m show "shelf_books (library (fst (addBook_local w bk shelf))) shelf =
           shelf_books (library w) shelf @ [enrich bk shelf]"
    by (simp add: shelf_books_def saveLocally_def map_of_upd_shelf)
  from l show "\<exists>s. library (fst (addBook_local w bk shelf)) = Obj s"
    by (simp add: saveLocally_def)
qed

lemma in_sync_addBook_response:
  "in_sync w \<Longrightarrow> library w = Obj s \<Longrightarrow> in_sync (addBook_response w shelf r)"
  by (cases r) (simp_all add: addBook_response_def in_sync_saveLocally)

lemma shelf_ids_addBook_response:
  "map book_id (shelf_books (library (addBook_response w shelf r)) k) =
   map book_id (shelf_books (library w) k)"
  by (cases r; cases "library w")
     (auto simp: addBook_response_def shelf_books_def saveLocally_def map_of_upd_shelf
        map_book_id_set_last split: option.splits)

lemma addBook_response_failure: "\<forall>n. r \<noteq> PostOk n \<Longrightarrow> addBook_response w shelf r = w"
  by (cases r) (simp_all add: addBook_response_def)

lemma addBook_cases:
  "fst (addBook w bk shelf r) = fst (addBook_local w bk shelf)
   \<or> fst (addBook w bk shelf r) = addBook_response (fst (addBook_local w bk shelf)) shelf r"
  by (simp add: addBook_def split: prod.splits part_end.splits)

lemma find_Some_id: "find (\<lambda>b. book_id b = i) bs = Some b \<Longrightarrow> b \<in> set bs \<and> book_id b = i"
  by (induction bs) (auto split: if_splits)

lemma findBookInShelf_shelves_None_iff:
  "findBookInShelf_shelves s i = None \<longleftrightarrow> \<not> findBook_shelves s i"
  by (induction s i rule: findBookInShelf_shelves.induct)
     (auto simp: list_ex_iff find_None_iff dest: find_Some_id split: option.splits)

lemma findBookInShelf_None_iff: "findBookInShelf l i = None \<longleftrightarrow> \<not> findBook l i"
  by (simp add: findBookInShelf_def findBook_def findBookInShelf_shelves_None_iff
        split: libval.splits)

lemma in_sync_removeBook: "findBook (library w) i \<Longrightarrow> in_sync (fst (removeBook w i))"
proof -
  assume f: "findBook (library w) i"
  then obtain s where s: "library w = Obj s" by (cases "library w") (auto simp: findBook_def)
  from f obtain k b where kb: "findBookInShelf (Obj s) i = Some (k, b)"
    using findBookInShelf_None_iff[of "library w" i] s by (cases "findBookInShelf (Obj s) i") auto
  let ?w1 = "saveLocally (w\<lparr>library := Obj (upd_shelf k (filter (\<lambda>b. book_id b \<noteq> i)) s)\<rparr>)"
  have "library (fst (removeBook w i)) = library ?w1"
    and "stored_library (fst (removeBook w i)) = stored_library ?w1"
    using s kb
    by (auto simp: removeBook_def Let_def saveLocally_def
          split: completion.splits option.splits)
  moreover have "in_sync ?w1" by (rule in_sync_saveLocally) simp
  ultimately show ?thesis by (rule in_sync_cong)
qed

lemma in_sync_progress_slider_input:
  "stored_library w = Some (Json (Obj s)) \<Longrightarrow> in_sync (fst (progress_slider_input w i v))"
  by (simp add: progress_slider_input_def in_sync_def hydrate_def)


subsection \<open>removeBook\<close>

lemma findBookInShelf_shelves_key:
  "findBookInShelf_shelves s i = Some (k, b) \<Longrightarrow> k \<in> fst ` set s"
  by (induction s i rule: findBookInShelf_shelves.induct) (auto split: option.splits)

lemma filter_other_ids:
  "i \<notin> set (all_ids s) \<Longrightarrow> map (\<lambda>(k, bs). (k, filter (\<lambda>b. book_id b \<noteq> i) bs)) s = s"
proof (induction s)
  case Nil
  then show ?case by simp
next
  case (Cons kb s)
  obtain k bs where kb: "kb = (k, bs)" by (cases kb)
  from Cons.prems have "\<forall>b \<in> set bs. book_id b \<noteq> i" and "i \<notin> set (all_ids s)"
    by (auto simp: kb all_ids_Cons)
  then show ?case using Cons.IH by (simp add: kb filter_id_conv)
qed

lemma remove_is_filter:
  "distinct (map fst s) \<Longrightarrow> distinct (all_ids s) \<Longrightarrow>
   findBookInShelf_shelves s i = Some (k, b) \<Longrightarrow>
   upd_shelf k (filter (\<lambda>b. book_id b \<noteq> i)) s =
     map (\<lambda>(k, bs). (k, filter (\<lambda>b. book_id b \<noteq> i) bs)) s"
proof (induction s)
  case Nil
  then show ?case by simp
next
  case (Cons kb s)
  obtain k0 bs where kb: "kb = (k0, bs)" by (cases kb)
  show ?case
  proof (cases "find (\<lambda>b. book_id b = i) bs")
    case (Some b')
    with Cons.prems(3) have k: "k = k0" by (simp add: kb)
    from Some have "i \<in> set (map book_id bs)"
      using find_Some_id[of i bs b'] by force
    with Cons.prems(2) have "i \<notin> set (all_ids s)" by (auto simp: kb all_ids_Cons)
    then show ?thesis by (simp add: kb k filter_other_ids)
  next
    case None
    then have nb: "\<forall>b \<in> set bs. book_id b \<noteq> i" by (simp add: find_None_iff)
    from None Cons.prems(3) have rest: "findBookInShelf_shelves s i = Some (k, b)"
      by (simp add: kb)
    then have "k \<in> fst ` set s" by (rule findBookInShelf_shelves_key)
    with Cons.prems(1) have ne: "k0 \<noteq> k" by (auto simp: kb)
    from Cons.prems have "distinct (map fst s)" "distinct (all_ids s)"
      by (auto simp: kb all_ids_Cons)
    from Cons.IH[OF this rest] ne nb show ?thesis by (simp add: kb filter_id_conv)
  qed
qed

lemma ids_after_filter:
  "i \<notin> set (all_ids (map (\<lambda>(k, bs). (k, filter (\<lambda>b. book_id b \<noteq> i) bs)) s))"
  by (induction s) (auto simp: all_ids_Cons all_ids_Nil)

lemma removeBook_not_found: "\<not> findBook (library w) i \<Longrightarrow> removeBook w i = (w, Returned False)"
  using findBookInShelf_None_iff[of "library w" i]
  by (auto simp: removeBook_def split: libval.splits)

lemma removeBook_found:
  assumes "findBook (library w) i"
  obtains s k b where "library w = Obj s" "findBookInShelf_shelves s i = Some (k, b)"
    "library (fst (removeBook w i)) = Obj (upd_shelf k (filter (\<lambda>b. book_id b \<noteq> i)) s)"
    "stored_library (fst (removeBook w i)) =
       Some (Json (Obj (upd_shelf k (filter (\<lambda>b. book_id b \<noteq> i)) s)))"
    "\<exists>u. getUser w = Returned u \<Longrightarrow> snd (removeBook w i) = Returned True"
proof -
  from assms obtain s where s: "library w = Obj s"
    by (cases "library w") (auto simp: findBook_def)
  from assms obtain k b where kb: "findBookInShelf_shelves s i = Some (k, b)"
    using findBookInShelf_None_iff[of "library w" i] s
    by (cases "findBookInShelf_shelves s i") (auto simp: findBookInShelf_def)
  have g: "getUser (saveLocally (w\<lparr>library := l\<rparr>)) = getUser w" for l
    by (simp add: getUser_def saveLocally_def)
  have 1: "library (fst (removeBook w i)) = Obj (upd_shelf k (filter (\<lambda>b. book_id b \<noteq> i)) s)"
    and 2: "stored_library (fst (removeBook w i)) =
       Some (Json (Obj (upd_shelf k (filter (\<lambda>b. book_id b \<noteq> i)) s)))"
    using s kb
    by (auto simp: removeBook_def findBookInShelf_def Let_def saveLocally_def
          split: completion.splits option.splits)
  have 3: "snd (removeBook w i) = Returned True" if "\<exists>u. getUser w = Returned u"
    using s kb that
    by (auto simp: removeBook_def findBookInShelf_def Let_def g split: option.splits)
  from s kb 1 2 3 that show thesis by blast
qed


subsection \<open>The progress slider\<close>


lemma set_first_progress_absent:
  "i \<notin> book_id ` set bs \<Longrightarrow> set_first_progress i v bs = bs"
  by (induction bs) auto

lemma set_first_progress_append:
  "set_first_progress i v (xs @ ys) =
     (if i \<in> book_id ` set xs then set_first_progress i v xs @ ys
      else xs @ set_first_progress i v ys)"
  by (induction xs) auto

lemma all_books_set_progress:
  "all_books (set_progress i v s) = set_first_progress i v (all_books s)"
proof (induction i v s rule: set_progress.induct)
  case (1 i v)
  then show ?case by (simp add: all_books_def)
next
  case (2 i v k bs rest)
  then show ?case
    by (auto simp: all_books_def set_first_progress_append list_ex_iff)
qed



subsection \<open>A sync that replaces the library\<close>

lemma upd_shelf_distinct:
  "distinct (map fst s) \<Longrightarrow>
   upd_shelf shelf f s = map (\<lambda>(k, bs). if k = shelf then (k, f bs) else (k, bs)) s"
proof (induction s)
  case Nil
  then show ?case by simp
next
  case (Cons kb s)
  obtain k bs where kb: "kb = (k, bs)" by (cases kb)
  show ?case
  proof (cases "k = shelf")
    case True
    with Cons.prems have "\<forall>(k', bs') \<in> set s. k' \<noteq> shelf" by (force simp: kb)
    then have "map (\<lambda>(k, bs). if k = shelf then (k, f bs) else (k, bs)) s = s"
      by (induction s) auto
    with True show ?thesis by (simp add: kb)
  next
    case False
    with Cons show ?thesis by (simp add: kb)
  qed
qed

lemma place_items_grouped:
  "distinct (map fst acc) \<Longrightarrow>
   \<forall>item \<in> set items. shelf_type item \<in> fst ` set acc
      \<or> shelf_type item \<notin> set object_prototype_names \<Longrightarrow>
   place_items acc items =
     Returned (map (\<lambda>(k, bs). (k, bs @ map to_book (filter (\<lambda>item. shelf_type item = k) items)))
       acc)"
proof (induction items arbitrary: acc)
  case Nil
  then show ?case by (simp add: case_prod_beta)
next
  case (Cons item items)
  let ?st = "shelf_type item"
  from Cons.prems(2) have rest: "\<forall>item \<in> set items. shelf_type item \<in> fst ` set acc
      \<or> shelf_type item \<notin> set object_prototype_names" by simp
  show ?case
  proof (cases "?st \<in> fst ` set acc")
    case True
    then obtain bs where own: "get_prop acc ?st = Own bs"
      using get_prop_Own_iff[of acc ?st] by blast
    let ?acc' = "upd_shelf ?st (\<lambda>xs. xs @ [to_book item]) acc"
    have d: "distinct (map fst ?acc')" using Cons.prems(1) by (simp add: upd_shelf_keys)
    have k: "fst ` set ?acc' = fst ` set acc"
      using upd_shelf_keys[of ?st "\<lambda>xs. xs @ [to_book item]" acc]
      by (metis list.set_map)
    from rest have r: "\<forall>item \<in> set items. shelf_type item \<in> fst ` set ?acc'
      \<or> shelf_type item \<notin> set object_prototype_names" by (simp only: k)
    have "place_items acc (item # items) = place_items ?acc' items"
      by (simp add: own)
    also have "\<dots> = Returned (map (\<lambda>(k, bs).
        (k, bs @ map to_book (filter (\<lambda>item. shelf_type item = k) items))) ?acc')"
      by (rule Cons.IH[OF d r])
    also have "map (\<lambda>(k, bs).
        (k, bs @ map to_book (filter (\<lambda>item. shelf_type item = k) items))) ?acc' =
      map (\<lambda>(k, bs).
        (k, bs @ map to_book (filter (\<lambda>item. shelf_type item = k) (item # items)))) acc"
      by (auto simp: upd_shelf_distinct[OF Cons.prems(1)])
    finally show ?thesis .
  next
    case False
    with Cons.prems(2) have ni: "?st \<notin> set object_prototype_names" by simp
    from False have "map_of acc ?st = None" by (simp add: map_of_eq_None_iff)
    with ni have "place_items acc (item # items) = place_items acc items"
      by (simp add: get_prop_def)
    also have "\<dots> = Returned (map (\<lambda>(k, bs).
        (k, bs @ map to_book (filter (\<lambda>item. shelf_type item = k) items))) acc)"
      by (rule Cons.IH[OF Cons.prems(1) rest])
    also have "map (\<lambda>(k, bs).
        (k, bs @ map to_book (filter (\<lambda>item. shelf_type item = k) items))) acc =
      map (\<lambda>(k, bs).
        (k, bs @ map to_book (filter (\<lambda>item. shelf_type item = k) (item # items)))) acc"
      using False by (auto simp: rev_image_eqI)
    finally show ?thesis .
  qed
qed

lemma recognized_not_inherited: "recognized n \<Longrightarrow> n \<notin> set object_prototype_names"
  by (auto simp: recognized_def object_prototype_names_def)

lemma place_items_empty_shelves:
  "\<forall>item \<in> set items. shelf_type item \<notin> set object_prototype_names \<Longrightarrow>
   place_items empty_shelves items = Returned (grouped_by_shelf_type items)"
  using place_items_grouped[of empty_shelves items]
  by (simp add: empty_shelves_def grouped_by_shelf_type_def)

lemma place_items_inherited:
  "\<exists>item \<in> set items. shelf_type item \<in> set object_prototype_names
      \<and> shelf_type item \<notin> fst ` set acc \<Longrightarrow>
   place_items acc items = Threw TypeError"
proof (induction items arbitrary: acc)
  case Nil
  then show ?case by simp
next
  case (Cons item items)
  show ?case
  proof (cases "get_prop acc (shelf_type item)")
    case (Own bs)
    then have own: "shelf_type item \<in> fst ` set acc"
      using get_prop_Own_iff[of acc "shelf_type item"] by blast
    have k: "fst ` set (upd_shelf (shelf_type item) (\<lambda>xs. xs @ [to_book item]) acc) =
        fst ` set acc"
      using upd_shelf_keys[of "shelf_type item" "\<lambda>xs. xs @ [to_book item]" acc]
      by (metis list.set_map)
    from own Cons.prems have "\<exists>it \<in> set items. shelf_type it \<in> set object_prototype_names
      \<and> shelf_type it \<notin> fst ` set (upd_shelf (shelf_type item) (\<lambda>xs. xs @ [to_book item]) acc)"
      unfolding k by auto
    with Own show ?thesis by (simp add: Cons.IH)
  next
    case Inherited
    then show ?thesis by simp
  next
    case Undefined
    then have "shelf_type item \<notin> set object_prototype_names"
      by (auto simp: get_prop_def split: option.splits if_splits)
    with Cons.prems have "\<exists>item \<in> set items. shelf_type item \<in> set object_prototype_names
      \<and> shelf_type item \<notin> fst ` set acc" by auto
    with Undefined show ?thesis by (simp add: Cons.IH)
  qed
qed

text \<open>
  With a session, a list that is not empty and has no shelf type that names a property
  of \<^verbatim>\<open>Object.prototype\<close>: the library becomes the remote records grouped by shelf type,
  whatever it was before, and is stored; records of other shelf types are left out.
\<close>

lemma sync_replaces:
  assumes "getUser w = Returned (Some u)" "items \<noteq> []"
    "\<forall>item \<in> set items. shelf_type item \<notin> set object_prototype_names"
  shows "syncWithBackend w (Listing items) =
     (reload_once (w\<lparr>requests := requests w @ [GetLibrary u],
                     library := Obj (grouped_by_shelf_type items),
                     stored_library := Some (Json (Obj (grouped_by_shelf_type items)))\<rparr>),
      Returned ())"
  using assms
  by (simp add: syncWithBackend_def sync_start_def sync_response_def place_items_empty_shelves
        saveLocally_def)

lemma library_reload_once: "library (reload_once w) = library w"
  and stored_library_reload_once: "stored_library (reload_once w) = stored_library w"
  by (simp_all add: reload_once_def)

text \<open>
  With a session and a list in which a shelf type names a property of
  \<^verbatim>\<open>Object.prototype\<close>, the \<^verbatim>\<open>forEach\<close> throws, the exception is caught, and nothing is
  assigned or stored.
\<close>

lemma sync_aborts:
  assumes "getUser w = Returned (Some u)"
    "\<exists>item \<in> set items. shelf_type item \<in> set object_prototype_names"
  shows "syncWithBackend w (Listing items) =
     (w\<lparr>requests := requests w @ [GetLibrary u]\<rparr>, Returned ())"
proof -
  from assms(2) have "\<exists>item \<in> set items. shelf_type item \<in> set object_prototype_names
      \<and> shelf_type item \<notin> fst ` set empty_shelves"
    by (auto simp: empty_shelves_def object_prototype_names_def)
  then have "place_items empty_shelves items = Threw TypeError"
    by (rule place_items_inherited)
  with assms(1) show ?thesis
    by (simp add: syncWithBackend_def sync_start_def sync_response_def)
qed

text \<open>
  C2. The claim fails for a remote record whose shelf type is \<open>constructor\<close>: it is not
  dropped. Beside a record of the shelf \<open>current\<close> it makes the sync stop, and the
  library keeps \<open>B1\<close> on \<open>want\<close>, where the claim has \<open>B2\<close> on \<open>current\<close> alone.
\<close>

theorem sync_unrecognized_shelf_not_dropped:
  "\<not> recognized ''constructor''
   \<and> syncWithBackend one_book_world
        (Listing [sample_item 1 ''B2'' ''current'', sample_item 2 ''B3'' ''constructor'']) =
       (one_book_world\<lparr>requests := [GetLibrary 7]\<rparr>, Returned ())
   \<and> library one_book_world \<noteq>
       Obj (grouped_by_shelf_type
         [sample_item 1 ''B2'' ''current'', sample_item 2 ''B3'' ''constructor''])"
proof -
  have 1: "\<not> recognized ''constructor''" by (simp add: recognized_def)
  have g: "getUser one_book_world = Returned (Some 7)"
    by (simp add: getUser_def one_book_world_def)
  have i: "\<exists>item \<in> set [sample_item 1 ''B2'' ''current'', sample_item 2 ''B3'' ''constructor''].
      shelf_type item \<in> set object_prototype_names"
    by (simp add: sample_item_def object_prototype_names_def)
  have r: "requests one_book_world @ [GetLibrary 7] = [GetLibrary 7]"
    by (simp add: one_book_world_def)
  from sync_aborts[OF g i] have 2: "syncWithBackend one_book_world
        (Listing [sample_item 1 ''B2'' ''current'', sample_item 2 ''B3'' ''constructor'']) =
       (one_book_world\<lparr>requests := [GetLibrary 7]\<rparr>, Returned ())"
    by (simp only: r)
  have 3: "library one_book_world \<noteq>
       Obj (grouped_by_shelf_type
         [sample_item 1 ''B2'' ''current'', sample_item 2 ''B3'' ''constructor''])"
    by (simp add: one_book_world_def grouped_by_shelf_type_def sample_item_def)
  from 1 2 3 show ?thesis by blast
qed

subsection \<open>A sync does not remove duplicates\<close>

lemma ids_of_grouped:
  "ids_of (Obj (grouped_by_shelf_type items)) =
     map google_books_id (filter (\<lambda>item. shelf_type item = ''current'') items)
     @ map google_books_id (filter (\<lambda>item. shelf_type item = ''want'') items)
     @ map google_books_id (filter (\<lambda>item. shelf_type item = ''finished'') items)"
  by (simp add: ids_of_def grouped_by_shelf_type_def all_ids_Cons all_ids_Nil to_book_def
        comp_def)

lemma mset_three_filters:
  assumes "\<And>x. \<not> (P x \<and> Q x)" "\<And>x. \<not> (P x \<and> R x)" "\<And>x. \<not> (Q x \<and> R x)"
  shows "mset (map f (filter P xs) @ map f (filter Q xs) @ map f (filter R xs))
     = mset (map f (filter (\<lambda>x. P x \<or> Q x \<or> R x) xs))"
  using assms by (induction xs) auto

lemma distinct_three_filters:
  assumes "\<And>x. \<not> (P x \<and> Q x)" "\<And>x. \<not> (P x \<and> R x)" "\<And>x. \<not> (Q x \<and> R x)"
  shows "distinct (map f (filter P xs) @ map f (filter Q xs) @ map f (filter R xs))
     \<longleftrightarrow> distinct (map f (filter (\<lambda>x. P x \<or> Q x \<or> R x) xs))"
  by (rule mset_eq_imp_distinct_iff) (rule mset_three_filters[OF assms])

lemma distinct_grouped_iff:
  "distinct
     (map google_books_id (filter (\<lambda>item. shelf_type item = ''current'') items)
      @ map google_books_id (filter (\<lambda>item. shelf_type item = ''want'') items)
      @ map google_books_id (filter (\<lambda>item. shelf_type item = ''finished'') items))
   \<longleftrightarrow> distinct (map google_books_id (filter (\<lambda>item. recognized (shelf_type item)) items))"
  unfolding recognized_def by (rule distinct_three_filters) simp_all

text \<open>
  The grouped shelves hold exactly the records of recognized shelf types, each once per
  occurrence in the remote list.
\<close>

lemma grouped_entries:
  "mset (all_books (grouped_by_shelf_type items)) =
     mset (map to_book (filter (\<lambda>item. recognized (shelf_type item)) items))"
proof -
  have "mset (map to_book (filter (\<lambda>item. shelf_type item = ''current'') items)
      @ map to_book (filter (\<lambda>item. shelf_type item = ''want'') items)
      @ map to_book (filter (\<lambda>item. shelf_type item = ''finished'') items)) =
    mset (map to_book (filter (\<lambda>item. recognized (shelf_type item)) items))"
    unfolding recognized_def by (rule mset_three_filters) simp_all
  then show ?thesis by (simp add: all_books_def grouped_by_shelf_type_def)
qed

text \<open>
  A sync that replaces the library looks for no duplicates. With a session, and a remote
  list without shelf types that name a property of \<^verbatim>\<open>Object.prototype\<close>: if two of its
  records with recognized shelf types have the same \<^verbatim>\<open>google_books_id\<close>, the library
  after the sync has that id twice, and this library is what is stored. The ids after
  such a sync are unique exactly when those of the recognized records are.
\<close>

lemma sync_keeps_duplicates:
  "getUser w = Returned (Some u)
   \<and> (\<forall>item \<in> set items. shelf_type item \<notin> set object_prototype_names) \<and> items \<noteq> [] \<longrightarrow>
     (unique_ids (library (fst (syncWithBackend w (Listing items)))) \<longleftrightarrow>
        distinct (map google_books_id (filter (\<lambda>item. recognized (shelf_type item)) items)))
     \<and> stored_library (fst (syncWithBackend w (Listing items))) =
         Some (Json (library (fst (syncWithBackend w (Listing items)))))"
proof (intro impI)
  assume a: "getUser w = Returned (Some u)
   \<and> (\<forall>item \<in> set items. shelf_type item \<notin> set object_prototype_names) \<and> items \<noteq> []"
  then have "syncWithBackend w (Listing items) =
     (reload_once (w\<lparr>requests := requests w @ [GetLibrary u],
                     library := Obj (grouped_by_shelf_type items),
                     stored_library := Some (Json (Obj (grouped_by_shelf_type items)))\<rparr>),
      Returned ())"
    using sync_replaces[of w u items] by blast
  then have l: "library (fst (syncWithBackend w (Listing items))) =
      Obj (grouped_by_shelf_type items)"
    and st: "stored_library (fst (syncWithBackend w (Listing items))) =
      Some (Json (Obj (grouped_by_shelf_type items)))"
    by (simp_all add: library_reload_once stored_library_reload_once)
  show "(unique_ids (library (fst (syncWithBackend w (Listing items)))) \<longleftrightarrow>
        distinct (map google_books_id (filter (\<lambda>item. recognized (shelf_type item)) items)))
     \<and> stored_library (fst (syncWithBackend w (Listing items))) =
         Some (Json (library (fst (syncWithBackend w (Listing items)))))"
    by (simp add: l st unique_ids_def ids_of_grouped distinct_grouped_iff del: distinct_append)
qed

lemma sync_keeps_duplicates_example:
  "getUser one_book_world = Returned (Some 7)
   \<and> shelf_type (sample_item 1 ''B2'' ''current'') \<notin> set object_prototype_names
   \<and> shelf_type (sample_item 2 ''B2'' ''want'') \<notin> set object_prototype_names
   \<and> [sample_item 1 ''B2'' ''current'', sample_item 2 ''B2'' ''want''] \<noteq> []
   \<and> \<not> unique_ids (library (fst (syncWithBackend one_book_world
         (Listing [sample_item 1 ''B2'' ''current'', sample_item 2 ''B2'' ''want'']))))
   \<and> ids_of (library (fst (syncWithBackend one_book_world
         (Listing [sample_item 1 ''B2'' ''current'', sample_item 2 ''B2'' ''want''])))) =
       [''B2'', ''B2'']"
proof -
  let ?items = "[sample_item 1 ''B2'' ''current'', sample_item 2 ''B2'' ''want'']"
  have g: "getUser one_book_world = Returned (Some 7)"
    by (simp add: getUser_def one_book_world_def)
  have n: "\<forall>item \<in> set ?items. shelf_type item \<notin> set object_prototype_names"
    by (simp add: sample_item_def object_prototype_names_def)
  have e: "?items \<noteq> []" by simp
  have d: "\<not> distinct (map google_books_id (filter (\<lambda>item. recognized (shelf_type item)) ?items))"
    by (simp add: sample_item_def recognized_def)
  have i: "ids_of (library (fst (syncWithBackend one_book_world (Listing ?items)))) =
       [''B2'', ''B2'']"
    by code_simp
  have n1: "shelf_type (sample_item 1 ''B2'' ''current'') \<notin> set object_prototype_names"
    and n2: "shelf_type (sample_item 2 ''B2'' ''want'') \<notin> set object_prototype_names"
    using n by simp_all
  from g n e d sync_keeps_duplicates[of one_book_world 7 ?items]
  have "\<not> unique_ids (library (fst (syncWithBackend one_book_world (Listing ?items))))"
    by blast
  with g n1 n2 e i show ?thesis by blast
qed

text \<open>
  C9. The claim fails for a remote list that has, beside two records of the same id on
  the shelves \<open>current\<close> and \<open>want\<close>, a record whose shelf type is \<open>toString\<close>: the
  sync stops at that record, neither of the two is placed or stored, and the library
  keeps \<open>B1\<close> alone.
\<close>

theorem sync_with_inherited_name_places_nothing:
  "recognized ''current'' \<and> recognized ''want''
   \<and> syncWithBackend one_book_world
        (Listing [sample_item 1 ''B2'' ''current'', sample_item 2 ''B2'' ''want'',
                  sample_item 3 ''B3'' ''toString'']) =
       (one_book_world\<lparr>requests := [GetLibrary 7]\<rparr>, Returned ())
   \<and> ids_of (library one_book_world) = [''B1'']
   \<and> stored_library one_book_world = Some (Json (library one_book_world))"
proof -
  have 1: "recognized ''current'' \<and> recognized ''want''" by (simp add: recognized_def)
  have g: "getUser one_book_world = Returned (Some 7)"
    by (simp add: getUser_def one_book_world_def)
  have i: "\<exists>item \<in> set [sample_item 1 ''B2'' ''current'', sample_item 2 ''B2'' ''want'',
                  sample_item 3 ''B3'' ''toString''].
      shelf_type item \<in> set object_prototype_names"
    by (simp add: sample_item_def object_prototype_names_def)
  have r: "requests one_book_world @ [GetLibrary 7] = [GetLibrary 7]"
    by (simp add: one_book_world_def)
  from sync_aborts[OF g i] have 2: "syncWithBackend one_book_world
        (Listing [sample_item 1 ''B2'' ''current'', sample_item 2 ''B2'' ''want'',
                  sample_item 3 ''B3'' ''toString'']) =
       (one_book_world\<lparr>requests := [GetLibrary 7]\<rparr>, Returned ())"
    by (simp only: r)
  have 3: "ids_of (library one_book_world) = [''B1'']"
    by (simp add: ids_of_def one_book_world_def all_ids_Cons all_ids_Nil sample_book_def)
  have 4: "stored_library one_book_world = Some (Json (library one_book_world))"
    by (simp add: one_book_world_def)
  from 1 2 3 4 show ?thesis by blast
qed

subsection \<open>The slider clamps the progress\<close>







subsection \<open>What removeBook leaves behind\<close>

lemma holders_Nil: "holders [] i = 0"
  by (simp add: holders_def)

lemma holders_Cons:
  "holders ((k, bs) # rest) i =
     (if i \<in> book_id ` set bs then Suc (holders rest i) else holders rest i)"
  by (auto simp: holders_def list_ex_iff)

lemma holders_pos_iff: "0 < holders s i \<longleftrightarrow> i \<in> set (all_ids s)"
  by (induction s) (auto simp: holders_Nil holders_Cons all_ids_Nil all_ids_Cons split: if_splits)

lemma unique_holders: "distinct (all_ids s) \<Longrightarrow> holders s i \<le> 1"
proof (induction s)
  case Nil
  then show ?case by (simp add: holders_Nil)
next
  case (Cons kb s)
  obtain k bs where kb: "kb = (k, bs)" by (cases kb)
  from Cons.prems have d: "distinct (all_ids s)"
    and dj: "book_id ` set bs \<inter> set (all_ids s) = {}"
    by (auto simp: kb all_ids_Cons)
  show ?case
  proof (cases "i \<in> book_id ` set bs")
    case True
    with dj have "i \<notin> set (all_ids s)" by auto
    then have "holders s i = 0" using holders_pos_iff[of s i] by simp
    with True show ?thesis by (simp add: kb holders_Cons)
  next
    case False
    with Cons.IH[OF d] show ?thesis by (simp add: kb holders_Cons)
  qed
qed

lemma find_id_iff: "find (\<lambda>b. book_id b = i) bs = None \<longleftrightarrow> i \<notin> book_id ` set bs"
  by (auto simp: find_None_iff)

lemma found_after_remove_iff:
  "distinct (map fst s) \<Longrightarrow> findBookInShelf_shelves s i = Some (k, b) \<Longrightarrow>
   i \<in> set (all_ids (upd_shelf k (filter (\<lambda>b. book_id b \<noteq> i)) s)) \<longleftrightarrow> 1 < holders s i"
proof (induction s)
  case Nil
  then show ?case by simp
next
  case (Cons kb s)
  obtain k0 bs where kb: "kb = (k0, bs)" by (cases kb)
  show ?case
  proof (cases "find (\<lambda>b. book_id b = i) bs")
    case (Some b')
    with Cons.prems(2) have k: "k = k0" by (simp add: kb)
    from Some have m: "i \<in> book_id ` set bs" using find_id_iff[of i bs] by simp
    have "i \<notin> book_id ` set (filter (\<lambda>b. book_id b \<noteq> i) bs)" by auto
    then have "i \<in> set (all_ids (upd_shelf k (filter (\<lambda>b. book_id b \<noteq> i)) (kb # s)))
        \<longleftrightarrow> i \<in> set (all_ids s)"
      by (simp add: kb k all_ids_Cons)
    also have "\<dots> \<longleftrightarrow> 0 < holders s i" by (simp add: holders_pos_iff)
    also have "\<dots> \<longleftrightarrow> 1 < holders (kb # s) i" using m by (simp add: kb holders_Cons)
    finally show ?thesis .
  next
    case None
    then have nm: "i \<notin> book_id ` set bs" by (simp add: find_id_iff)
    from None Cons.prems(2) have rest: "findBookInShelf_shelves s i = Some (k, b)"
      by (simp add: kb)
    then have "k \<in> fst ` set s" by (rule findBookInShelf_shelves_key)
    with Cons.prems(1) have ne: "k0 \<noteq> k" by (auto simp: kb)
    from Cons.prems(1) have d: "distinct (map fst s)" by simp
    from Cons.IH[OF d rest] ne nm show ?thesis
      by (simp add: kb all_ids_Cons holders_Cons)
  qed
qed

lemma remove_only_holder:
  "distinct (map fst s) \<Longrightarrow> holders s i = 1 \<Longrightarrow>
   findBookInShelf_shelves s i = Some (k, b) \<Longrightarrow>
   upd_shelf k (filter (\<lambda>b. book_id b \<noteq> i)) s =
     map (\<lambda>(k, bs). (k, filter (\<lambda>b. book_id b \<noteq> i) bs)) s"
proof (induction s)
  case Nil
  then show ?case by simp
next
  case (Cons kb s)
  obtain k0 bs where kb: "kb = (k0, bs)" by (cases kb)
  show ?case
  proof (cases "find (\<lambda>b. book_id b = i) bs")
    case (Some b')
    with Cons.prems(3) have k: "k = k0" by (simp add: kb)
    from Some have m: "i \<in> book_id ` set bs" using find_id_iff[of i bs] by simp
    with Cons.prems(2) have "holders s i = 0" by (simp add: kb holders_Cons)
    then have "i \<notin> set (all_ids s)" using holders_pos_iff[of s i] by simp
    then show ?thesis by (simp add: kb k filter_other_ids)
  next
    case None
    then have nm: "i \<notin> book_id ` set bs" by (simp add: find_id_iff)
    then have nb: "\<forall>b \<in> set bs. book_id b \<noteq> i" by auto
    from None Cons.prems(3) have rest: "findBookInShelf_shelves s i = Some (k, b)"
      by (simp add: kb)
    then have "k \<in> fst ` set s" by (rule findBookInShelf_shelves_key)
    with Cons.prems(1) have ne: "k0 \<noteq> k" by (auto simp: kb)
    from Cons.prems(1) have d: "distinct (map fst s)" by simp
    from Cons.prems(2) nm have h: "holders s i = 1" by (simp add: kb holders_Cons)
    from Cons.IH[OF d h rest] ne nb show ?thesis by (simp add: kb filter_id_conv)
  qed
qed

lemma shelf_names_addBook:
  "shelf_names (library (fst (addBook w bk shelf r))) = shelf_names (library w)"
  by (auto simp: addBook_def addBook_local_def addBook_response_def shelf_names_def
        saveLocally_def upd_shelf_keys Let_def
        split: prod.splits part_end.splits libval.splits property.splits completion.splits
          option.splits post_result.splits if_splits)

lemma shelf_names_addBooks:
  "shelf_names (library (addBooks w calls)) = shelf_names (library w)"
  by (induction w calls rule: addBooks.induct) (simp_all add: shelf_names_addBook)

text \<open>
  C7, as the claim states it, fails where the id is on two shelves, as after a sync
  that received \<open>B2\<close> for \<open>current\<close> and for \<open>want\<close>: \<^verbatim>\<open>removeBook\<close> returns
  \<open>True\<close>, \<^verbatim>\<open>findBook\<close> still finds the id, and the second \<^verbatim>\<open>removeBook\<close> returns
  \<open>True\<close> again.
\<close>

theorem removeBook_twice_counterexample:
  "ids_of (library twice_synced_world) = [''B2'', ''B2'']
   \<and> snd (removeBook twice_synced_world ''B2'') = Returned True
   \<and> findBook (library (fst (removeBook twice_synced_world ''B2''))) ''B2''
   \<and> snd (removeBook (fst (removeBook twice_synced_world ''B2'')) ''B2'') = Returned True"
  by code_simp

text \<open>
  C7, amended. \<^verbatim>\<open>removeBook\<close> of an id that is on no shelf returns \<open>False\<close> and leaves
  the world as it was. Of an id that is on a shelf it removes the entries of that id
  from the first shelf that holds one and stores the library; with a session item that
  is missing or parses it returns \<open>True\<close>. Afterwards \<^verbatim>\<open>findBook\<close> finds the id exactly
  when it was on more than one shelf; when it was on one shelf only, the library is the
  one before without the entries of that id and a second \<^verbatim>\<open>removeBook\<close> returns
  \<open>False\<close> and changes nothing. An id is on one shelf only in every library that
  \<^verbatim>\<open>addBook\<close> calls have built from the three empty shelves. (The library is an object:
  each of its shelf names once.)
\<close>

theorem removeBook_result:
  "(\<not> findBook (library w) i \<longrightarrow> removeBook w i = (w, Returned False))
   \<and> (library w = Obj s \<and> findBookInShelf (library w) i = Some (k, b) \<longrightarrow>
        library (fst (removeBook w i)) = Obj (upd_shelf k (filter (\<lambda>b. book_id b \<noteq> i)) s)
        \<and> stored_library (fst (removeBook w i)) = Some (Json (library (fst (removeBook w i)))))
   \<and> (findBook (library w) i \<and> getUser w = Returned u \<longrightarrow>
        snd (removeBook w i) = Returned True)
   \<and> (findBook (library w) i \<and> library w = Obj s \<and> distinct (map fst s) \<longrightarrow>
        (findBook (library (fst (removeBook w i))) i \<longleftrightarrow> 1 < holders s i)
        \<and> (holders s i = 1 \<longrightarrow>
             library (fst (removeBook w i)) =
               Obj (map (\<lambda>(k, bs). (k, filter (\<lambda>b. book_id b \<noteq> i) bs)) s)
             \<and> removeBook (fst (removeBook w i)) i = (fst (removeBook w i), Returned False)))
   \<and> (library w0 = Obj empty_shelves \<and> findBook (library (addBooks w0 calls)) i \<longrightarrow>
        \<not> findBook (library (fst (removeBook (addBooks w0 calls) i))) i
        \<and> removeBook (fst (removeBook (addBooks w0 calls) i)) i =
            (fst (removeBook (addBooks w0 calls) i), Returned False))"
proof -
  have A: "removeBook w i = (w, Returned False)" if "\<not> findBook (library w) i" for w
    using that by (rule removeBook_not_found)
  have B: "library (fst (removeBook w i)) = Obj (upd_shelf k (filter (\<lambda>b. book_id b \<noteq> i)) s)
        \<and> stored_library (fst (removeBook w i)) = Some (Json (library (fst (removeBook w i))))"
    if "library w = Obj s" "findBookInShelf (library w) i = Some (k, b)" for w s k b
  proof -
    from that have f: "findBook (library w) i"
      using findBookInShelf_None_iff[of "library w" i] by auto
    from that have kb: "findBookInShelf_shelves s i = Some (k, b)"
      by (simp add: findBookInShelf_def)
    from f obtain s' k' b' where "library w = Obj s'"
      "findBookInShelf_shelves s' i = Some (k', b')"
      "library (fst (removeBook w i)) = Obj (upd_shelf k' (filter (\<lambda>b. book_id b \<noteq> i)) s')"
      "stored_library (fst (removeBook w i)) =
         Some (Json (Obj (upd_shelf k' (filter (\<lambda>b. book_id b \<noteq> i)) s')))"
      by (rule removeBook_found)
    with that(1) kb show ?thesis by simp
  qed
  have C: "snd (removeBook w i) = Returned True"
    if "findBook (library w) i" "getUser w = Returned u" for w u
    using that by (auto elim: removeBook_found[of w i])
  have D: "(findBook (library (fst (removeBook w i))) i \<longleftrightarrow> 1 < holders s i)
        \<and> (holders s i = 1 \<longrightarrow>
             library (fst (removeBook w i)) =
               Obj (map (\<lambda>(k, bs). (k, filter (\<lambda>b. book_id b \<noteq> i) bs)) s)
             \<and> removeBook (fst (removeBook w i)) i = (fst (removeBook w i), Returned False))"
    if Df: "findBook (library w) i" and Dl: "library w = Obj s" and Dd: "distinct (map fst s)"
    for w s
  proof -
    from Df obtain s' k b where "library w = Obj s'"
      "findBookInShelf_shelves s' i = Some (k, b)"
      "library (fst (removeBook w i)) = Obj (upd_shelf k (filter (\<lambda>b. book_id b \<noteq> i)) s')"
      by (rule removeBook_found)
    with Dl have kb: "findBookInShelf_shelves s i = Some (k, b)"
      and l: "library (fst (removeBook w i)) = Obj (upd_shelf k (filter (\<lambda>b. book_id b \<noteq> i)) s)"
      by simp_all
    have 1: "findBook (library (fst (removeBook w i))) i \<longleftrightarrow> 1 < holders s i"
      by (simp add: l findBook_iff ids_of_def found_after_remove_iff[OF Dd kb])
    have 2: "library (fst (removeBook w i)) =
               Obj (map (\<lambda>(k, bs). (k, filter (\<lambda>b. book_id b \<noteq> i) bs)) s)
             \<and> removeBook (fst (removeBook w i)) i = (fst (removeBook w i), Returned False)"
      if h: "holders s i = 1"
    proof -
      from h 1 have "\<not> findBook (library (fst (removeBook w i))) i" by simp
      then have "removeBook (fst (removeBook w i)) i = (fst (removeBook w i), Returned False)"
        by (rule A)
      with l show ?thesis by (simp add: remove_only_holder[OF Dd h kb])
    qed
    from 1 2 show ?thesis by blast
  qed
  have E: "\<not> findBook (library (fst (removeBook (addBooks w0 calls) i))) i
        \<and> removeBook (fst (removeBook (addBooks w0 calls) i)) i =
            (fst (removeBook (addBooks w0 calls) i), Returned False)"
    if e: "library w0 = Obj empty_shelves" and f: "findBook (library (addBooks w0 calls)) i"
  proof -
    let ?w = "addBooks w0 calls"
    from f obtain s where s: "library ?w = Obj s"
      by (cases "library ?w") (auto simp: findBook_def)
    from e have "unique_ids (library w0)"
      by (simp add: unique_ids_def ids_of_def empty_shelves_def all_ids_Cons all_ids_Nil)
    then have "unique_ids (library ?w)" by (rule addBooks_unique)
    with s have u: "distinct (all_ids s)" by (simp add: unique_ids_def ids_of_def)
    have "shelf_names (library ?w) = shelf_names (library w0)" by (rule shelf_names_addBooks)
    with s e have d: "distinct (map fst s)" by (simp add: shelf_names_def empty_shelves_def)
    from f s have "0 < holders s i" by (simp add: findBook_iff ids_of_def holders_pos_iff)
    with unique_holders[OF u, of i] have h: "holders s i = 1" by simp
    from h have "\<not> 1 < holders s i" by simp
    with D[OF f s d] h show ?thesis by blast
  qed
  from A B C D E show ?thesis by blast
qed

theorem removeBook_result_witness:
  "\<not> findBook (library one_book_world) ''B2''
   \<and> removeBook one_book_world ''B2'' = (one_book_world, Returned False)
   \<and> library one_book_world =
       Obj [(''current'', []), (''want'', [sample_book ''B1'']), (''finished'', [])]
   \<and> findBookInShelf (library one_book_world) ''B1'' = Some (''want'', sample_book ''B1'')
   \<and> findBook (library one_book_world) ''B1''
   \<and> getUser one_book_world = Returned (Some 7)
   \<and> distinct (map fst [(''current'', []), (''want'', [sample_book ''B1'']), (''finished'', [])])
   \<and> holders [(''current'', []), (''want'', [sample_book ''B1'']), (''finished'', [])] ''B1'' = 1
   \<and> snd (removeBook one_book_world ''B1'') = Returned True
   \<and> library (fst (removeBook one_book_world ''B1'')) = Obj empty_shelves
   \<and> stored_library (fst (removeBook one_book_world ''B1'')) = Some (Json (Obj empty_shelves))
   \<and> \<not> findBook (library (fst (removeBook one_book_world ''B1''))) ''B1''
   \<and> snd (removeBook (fst (removeBook one_book_world ''B1'')) ''B1'') = Returned False
   \<and> library fresh_world = Obj empty_shelves
   \<and> findBook (library (addBooks fresh_world
         [(sample_book ''B1'', ''want'', PostNotOk), (sample_book ''B1'', ''current'', PostNotOk)]))
       ''B1''
   \<and> \<not> findBook (library (fst (removeBook (addBooks fresh_world
         [(sample_book ''B1'', ''want'', PostNotOk), (sample_book ''B1'', ''current'', PostNotOk)])
         ''B1''))) ''B1''"
proof -
  let ?s = "[(''current'', []), (''want'', [sample_book ''B1'']), (''finished'', [])]"
  let ?calls = "[(sample_book ''B1'', ''want'', PostNotOk),
                 (sample_book ''B1'', ''current'', PostNotOk)]"
  note t = removeBook_result[where w = one_book_world and s = ?s and k = "''want''"
      and b = "sample_book ''B1''" and u = "Some 7" and ?w0.0 = fresh_world and calls = ?calls]
  have h1: "\<not> findBook (library one_book_world) ''B2''" by code_simp
  have h2: "findBook (library one_book_world) ''B1''" by code_simp
  have h3: "getUser one_book_world = Returned (Some 7)"
    by (simp add: getUser_def one_book_world_def)
  have h4: "library one_book_world = Obj ?s" by (simp add: one_book_world_def)
  have h5: "distinct (map fst ?s)" by simp
  have h6: "holders ?s ''B1'' = 1" by (simp add: holders_def sample_book_def)
  have h7: "findBookInShelf (library one_book_world) ''B1'' = Some (''want'', sample_book ''B1'')"
    by (simp add: h4 findBookInShelf_def sample_book_def)
  have h8: "library fresh_world = Obj empty_shelves" by (simp add: fresh_world_def)
  have h9: "findBook (library (addBooks fresh_world ?calls)) ''B1''" by code_simp
  have f: "map (\<lambda>(k, bs). (k, filter (\<lambda>b. book_id b \<noteq> ''B1'') bs)) ?s = empty_shelves"
    by (simp add: empty_shelves_def sample_book_def)
  from h1 t[of "''B2''"] have 1: "removeBook one_book_world ''B2'' = (one_book_world, Returned False)"
    by blast
  from h2 h3 t[of "''B1''"] have 2: "snd (removeBook one_book_world ''B1'') = Returned True"
    by blast
  from h4 h7 t[of "''B1''"]
  have 3: "stored_library (fst (removeBook one_book_world ''B1'')) =
      Some (Json (library (fst (removeBook one_book_world ''B1''))))"
    by blast
  from h2 h4 h5 h6 t[of "''B1''"]
  have 4: "library (fst (removeBook one_book_world ''B1'')) = Obj empty_shelves"
    and 6: "removeBook (fst (removeBook one_book_world ''B1'')) ''B1'' =
      (fst (removeBook one_book_world ''B1''), Returned False)"
    unfolding f by blast+
  from h6 have n: "\<not> 1 < holders ?s ''B1''" by simp
  from h2 h4 h5 n t[of "''B1''"]
  have 5: "\<not> findBook (library (fst (removeBook one_book_world ''B1''))) ''B1''"
    by blast
  from 6 have 7: "snd (removeBook (fst (removeBook one_book_world ''B1'')) ''B1'') = Returned False"
    by simp
  from 3 4 have 8: "stored_library (fst (removeBook one_book_world ''B1'')) =
      Some (Json (Obj empty_shelves))" by simp
  from h8 h9 t[of "''B1''"]
  have 9: "\<not> findBook (library (fst (removeBook (addBooks fresh_world ?calls) ''B1''))) ''B1''"
    by blast
  from h1 1 h4 h7 h2 h3 h5 h6 2 4 8 5 7 h8 h9 9 show ?thesis by blast
qed

subsection \<open>A new manager sees every mutation\<close>

lemma findBookInShelf_shelves_member:
  "findBookInShelf_shelves s i = Some (k, b) \<Longrightarrow>
   \<exists>bs. (k, bs) \<in> set s \<and> b \<in> set bs \<and> book_id b = i"
proof (induction s i rule: findBookInShelf_shelves.induct)
  case (1 i)
  then show ?case by simp
next
  case (2 k0 bs rest i)
  show ?case
  proof (cases "find (\<lambda>b. book_id b = i) bs")
    case None
    with 2 show ?thesis by auto
  next
    case (Some b')
    with "2.prems" have "k = k0" "b = b'" by simp_all
    with Some find_Some_id[of i bs b'] show ?thesis by auto
  qed
qed

lemma findBookInShelf_on_shelf:
  assumes "distinct (map fst s)" "findBookInShelf (Obj s) i = Some (k, b)"
  shows "b \<in> set (shelf_books (Obj s) k) \<and> book_id b = i"
proof -
  from assms(2) obtain bs where m: "(k, bs) \<in> set s" "b \<in> set bs" "book_id b = i"
    using findBookInShelf_shelves_member[of s i k b] by (auto simp: findBookInShelf_def)
  from assms(1) m(1) have "map_of s k = Some bs" by (rule map_of_is_SomeI)
  with m show ?thesis by (simp add: shelf_books_def)
qed

lemma removeBook_shelves:
  assumes "library w = Obj s" "findBookInShelf (library w) i = Some (k, b)"
  shows "library (fst (removeBook w i)) = Obj (upd_shelf k (filter (\<lambda>b. book_id b \<noteq> i)) s)"
    and "shelf_books (library (fst (removeBook w i))) k =
           filter (\<lambda>b. book_id b \<noteq> i) (shelf_books (library w) k)"
    and "k' \<noteq> k \<Longrightarrow> shelf_books (library (fst (removeBook w i))) k' = shelf_books (library w) k'"
    and "shelf_names (library (fst (removeBook w i))) = shelf_names (library w)"
proof -
  from assms have f: "findBook (library w) i"
    using findBookInShelf_None_iff[of "library w" i] by auto
  from assms have kb: "findBookInShelf_shelves s i = Some (k, b)"
    by (simp add: findBookInShelf_def)
  from f obtain s' k0 b0 where "library w = Obj s'"
    "findBookInShelf_shelves s' i = Some (k0, b0)"
    "library (fst (removeBook w i)) = Obj (upd_shelf k0 (filter (\<lambda>b. book_id b \<noteq> i)) s')"
    by (rule removeBook_found)
  with assms(1) kb
  show l: "library (fst (removeBook w i)) = Obj (upd_shelf k (filter (\<lambda>b. book_id b \<noteq> i)) s)"
    by simp
  show "shelf_books (library (fst (removeBook w i))) k =
           filter (\<lambda>b. book_id b \<noteq> i) (shelf_books (library w) k)"
    by (simp add: l assms(1) shelf_books_def map_of_upd_shelf split: option.splits)
  show "shelf_books (library (fst (removeBook w i))) k' = shelf_books (library w) k'"
    if "k' \<noteq> k"
    using that by (simp add: l assms(1) shelf_books_def map_of_upd_shelf)
  show "shelf_names (library (fst (removeBook w i))) = shelf_names (library w)"
    by (simp add: l assms(1) shelf_names_def upd_shelf_keys)
qed

text \<open>
  C5. When \<^verbatim>\<open>addBook\<close> adds (the shelf is one of the library's, the id is new), then at the
  end of its synchronous part the stored item is the library in memory, whose shelf has
  the new entry at its end; the same holds after the answer to the \<^verbatim>\<open>POST\<close>, whatever it
  is, and an answer that is not a success leaves the world as the synchronous part left
  it. When \<^verbatim>\<open>removeBook\<close> finds the id on a shelf, the stored item is afterwards the
  library in memory, in which that shelf has lost its entries of the id (the entry found
  among them) and every other shelf is as before. When the slider's handler finds a
  stored library object, the stored item is afterwards the library in memory, in which
  the first entry of the id has the slider's value as its \<^verbatim>\<open>progress\<close>. In each case a
  manager constructed afterwards holds that same library.
\<close>

theorem local_store_follows_mutation:
  "(shelf \<in> set (shelf_names (library w)) \<and> \<not> findBook (library w) (book_id bk) \<longrightarrow>
      in_sync (fst (addBook_local w bk shelf))
      \<and> shelf_books (library (fst (addBook_local w bk shelf))) shelf =
          shelf_books (library w) shelf @ [enrich bk shelf]
      \<and> in_sync (fst (addBook w bk shelf r))
      \<and> map book_id (shelf_books (library (fst (addBook w bk shelf r))) shelf) =
          map book_id (shelf_books (library w) shelf) @ [book_id bk]
      \<and> ((\<forall>n. r \<noteq> PostOk n) \<longrightarrow> fst (addBook w bk shelf r) = fst (addBook_local w bk shelf))
      \<and> snd (LibraryManager_constructor (fst (addBook w bk shelf r))) = Returned ()
      \<and> library (fst (LibraryManager_constructor (fst (addBook w bk shelf r)))) =
          library (fst (addBook w bk shelf r)))
   \<and> (findBook (library w) i \<longrightarrow> in_sync (fst (removeBook w i)))
   \<and> (library w = Obj s \<and> findBookInShelf (library w) i = Some (k, b) \<longrightarrow>
      in_sync (fst (removeBook w i))
      \<and> library (fst (removeBook w i)) = Obj (upd_shelf k (filter (\<lambda>b. book_id b \<noteq> i)) s)
      \<and> shelf_books (library (fst (removeBook w i))) k =
          filter (\<lambda>b. book_id b \<noteq> i) (shelf_books (library w) k)
      \<and> (\<forall>k'. k' \<noteq> k \<longrightarrow>
            shelf_books (library (fst (removeBook w i))) k' = shelf_books (library w) k')
      \<and> shelf_names (library (fst (removeBook w i))) = shelf_names (library w)
      \<and> (distinct (map fst s) \<longrightarrow> b \<in> set (shelf_books (library w) k) \<and> book_id b = i)
      \<and> snd (LibraryManager_constructor (fst (removeBook w i))) = Returned ()
      \<and> library (fst (LibraryManager_constructor (fst (removeBook w i)))) =
          library (fst (removeBook w i)))
   \<and> (stored_library w = Some (Json (Obj t)) \<longrightarrow>
      in_sync (fst (progress_slider_input w i v))
      \<and> library (fst (progress_slider_input w i v)) = Obj (set_progress i (slider_value v) t)
      \<and> (\<forall>xs c ys. all_books t = xs @ c # ys \<and> book_id c = i \<and> i \<notin> book_id ` set xs \<longrightarrow>
            all_books (set_progress i (slider_value v) t) =
              xs @ c\<lparr>progress := Num (slider_value v)\<rparr> # ys)
      \<and> snd (LibraryManager_constructor (fst (progress_slider_input w i v))) = Returned ()
      \<and> library (fst (LibraryManager_constructor (fst (progress_slider_input w i v)))) =
          library (fst (progress_slider_input w i v)))"
proof -
  have A: "in_sync (fst (addBook_local w bk shelf))
      \<and> shelf_books (library (fst (addBook_local w bk shelf))) shelf =
          shelf_books (library w) shelf @ [enrich bk shelf]
      \<and> in_sync (fst (addBook w bk shelf r))
      \<and> map book_id (shelf_books (library (fst (addBook w bk shelf r))) shelf) =
          map book_id (shelf_books (library w) shelf) @ [book_id bk]
      \<and> ((\<forall>n. r \<noteq> PostOk n) \<longrightarrow> fst (addBook w bk shelf r) = fst (addBook_local w bk shelf))
      \<and> snd (LibraryManager_constructor (fst (addBook w bk shelf r))) = Returned ()
      \<and> library (fst (LibraryManager_constructor (fst (addBook w bk shelf r)))) =
          library (fst (addBook w bk shelf r))"
    if a1: "shelf \<in> set (shelf_names (library w))"
      and a2: "\<not> findBook (library w) (book_id bk)"
  proof -
    note l = addBook_local_adds[OF a1 a2]
    from l(3) obtain s' where s': "library (fst (addBook_local w bk shelf)) = Obj s'" by blast
    from l(1) s' have 3: "in_sync (addBook_response (fst (addBook_local w bk shelf)) shelf r)"
      by (rule in_sync_addBook_response)
    from l(1) 3 addBook_cases[of w bk shelf r] have 4: "in_sync (fst (addBook w bk shelf r))"
      by auto
    have "map book_id (shelf_books (library (fst (addBook_local w bk shelf))) shelf) =
          map book_id (shelf_books (library w) shelf) @ [book_id bk]"
      by (simp add: l(2) enrich_def)
    with addBook_cases[of w bk shelf r]
    have 5: "map book_id (shelf_books (library (fst (addBook w bk shelf r))) shelf) =
          map book_id (shelf_books (library w) shelf) @ [book_id bk]"
      by (auto simp: shelf_ids_addBook_response)
    have 6: "fst (addBook w bk shelf r) = fst (addBook_local w bk shelf)"
      if "\<forall>n. r \<noteq> PostOk n"
      using that addBook_cases[of w bk shelf r] by (auto simp: addBook_response_failure)
    from l(1) l(2) 4 5 6 in_sync_constructor[OF 4] show ?thesis by blast
  qed
  have B: "in_sync (fst (removeBook w i))" if "findBook (library w) i"
    using that by (rule in_sync_removeBook)
  have C: "in_sync (fst (removeBook w i))
      \<and> library (fst (removeBook w i)) = Obj (upd_shelf k (filter (\<lambda>b. book_id b \<noteq> i)) s)
      \<and> shelf_books (library (fst (removeBook w i))) k =
          filter (\<lambda>b. book_id b \<noteq> i) (shelf_books (library w) k)
      \<and> (\<forall>k'. k' \<noteq> k \<longrightarrow>
            shelf_books (library (fst (removeBook w i))) k' = shelf_books (library w) k')
      \<and> shelf_names (library (fst (removeBook w i))) = shelf_names (library w)
      \<and> (distinct (map fst s) \<longrightarrow> b \<in> set (shelf_books (library w) k) \<and> book_id b = i)
      \<and> snd (LibraryManager_constructor (fst (removeBook w i))) = Returned ()
      \<and> library (fst (LibraryManager_constructor (fst (removeBook w i)))) =
          library (fst (removeBook w i))"
    if c1: "library w = Obj s" and c2: "findBookInShelf (library w) i = Some (k, b)"
  proof -
    from c2 have f: "findBook (library w) i"
      using findBookInShelf_None_iff[of "library w" i] by auto
    note i = B[OF f]
    note r = removeBook_shelves[OF c1 c2]
    have m: "b \<in> set (shelf_books (library w) k) \<and> book_id b = i" if "distinct (map fst s)"
      using findBookInShelf_on_shelf[OF that, of i k b] c1 c2 by simp
    from i r(1) r(2) r(3) r(4) m in_sync_constructor[OF i] show ?thesis by blast
  qed
  have D: "in_sync (fst (progress_slider_input w i v))
      \<and> library (fst (progress_slider_input w i v)) = Obj (set_progress i (slider_value v) t)
      \<and> (\<forall>xs c ys. all_books t = xs @ c # ys \<and> book_id c = i \<and> i \<notin> book_id ` set xs \<longrightarrow>
            all_books (set_progress i (slider_value v) t) =
              xs @ c\<lparr>progress := Num (slider_value v)\<rparr> # ys)
      \<and> snd (LibraryManager_constructor (fst (progress_slider_input w i v))) = Returned ()
      \<and> library (fst (LibraryManager_constructor (fst (progress_slider_input w i v)))) =
          library (fst (progress_slider_input w i v))"
    if d: "stored_library w = Some (Json (Obj t))"
  proof -
    from d have 1: "in_sync (fst (progress_slider_input w i v))"
      by (rule in_sync_progress_slider_input)
    from d have 2: "library (fst (progress_slider_input w i v)) =
        Obj (set_progress i (slider_value v) t)"
      by (simp add: progress_slider_input_def)
    have 3: "all_books (set_progress i (slider_value v) t) =
              xs @ c\<lparr>progress := Num (slider_value v)\<rparr> # ys"
      if "all_books t = xs @ c # ys \<and> book_id c = i \<and> i \<notin> book_id ` set xs" for xs c ys
      using that by (simp add: all_books_set_progress set_first_progress_append)
    from 1 2 3 in_sync_constructor[OF 1] show ?thesis by blast
  qed
  from A B C D show ?thesis by blast
qed

theorem local_store_follows_mutation_witness:
  "''current'' \<in> set (shelf_names (library one_book_world))
   \<and> \<not> findBook (library one_book_world) (book_id (sample_book ''B2''))
   \<and> (\<forall>n. PostNetworkError \<noteq> PostOk n)
   \<and> in_sync (fst (addBook_local one_book_world (sample_book ''B2'') ''current''))
   \<and> in_sync (fst (addBook one_book_world (sample_book ''B2'') ''current'' PostNetworkError))
   \<and> fst (addBook one_book_world (sample_book ''B2'') ''current'' PostNetworkError) =
       fst (addBook_local one_book_world (sample_book ''B2'') ''current'')
   \<and> library (fst (LibraryManager_constructor
         (fst (addBook one_book_world (sample_book ''B2'') ''current'' PostNetworkError)))) =
       Obj [(''current'', [(sample_book ''B2'')\<lparr>progress := Num 0\<rparr>]),
            (''want'', [sample_book ''B1'']), (''finished'', [])]
   \<and> findBook (library one_book_world) ''B1''
   \<and> library one_book_world =
       Obj [(''current'', []), (''want'', [sample_book ''B1'']), (''finished'', [])]
   \<and> findBookInShelf (library one_book_world) ''B1'' = Some (''want'', sample_book ''B1'')
   \<and> distinct (map fst [(''current'', []), (''want'', [sample_book ''B1'']), (''finished'', [])])
   \<and> ''current'' \<noteq> ''want''
   \<and> in_sync (fst (removeBook one_book_world ''B1''))
   \<and> shelf_books (library (fst (removeBook one_book_world ''B1''))) ''want'' = []
   \<and> shelf_books (library (fst (removeBook one_book_world ''B1''))) ''current'' =
       shelf_books (library one_book_world) ''current''
   \<and> sample_book ''B1'' \<in> set (shelf_books (library one_book_world) ''want'')
   \<and> library (fst (LibraryManager_constructor (fst (removeBook one_book_world ''B1'')))) =
       Obj empty_shelves
   \<and> stored_library reading_world =
       Some (Json (Obj [(''current'', [(sample_book ''B1'')\<lparr>progress := Num 0\<rparr>]),
                        (''want'', []), (''finished'', [])]))
   \<and> all_books [(''current'', [(sample_book ''B1'')\<lparr>progress := Num 0\<rparr>]),
                 (''want'', []), (''finished'', [])] =
       [] @ (sample_book ''B1'')\<lparr>progress := Num 0\<rparr> # []
   \<and> book_id ((sample_book ''B1'')\<lparr>progress := Num 0\<rparr>) = ''B1''
   \<and> ''B1'' \<notin> book_id ` set []
   \<and> in_sync (fst (progress_slider_input reading_world ''B1'' 40))
   \<and> all_books (set_progress ''B1'' (slider_value 40)
        [(''current'', [(sample_book ''B1'')\<lparr>progress := Num 0\<rparr>]),
         (''want'', []), (''finished'', [])]) =
       [] @ (sample_book ''B1'')\<lparr>progress := Num 0, progress := Num (slider_value 40)\<rparr> # []
   \<and> library (fst (LibraryManager_constructor
         (fst (progress_slider_input reading_world ''B1'' 40)))) =
       Obj [(''current'', [(sample_book ''B1'')\<lparr>progress := Num 40\<rparr>]),
            (''want'', []), (''finished'', [])]"
proof -
  let ?s = "[(''current'', []), (''want'', [sample_book ''B1'']), (''finished'', [])]"
  let ?t = "[(''current'', [(sample_book ''B1'')\<lparr>progress := Num 0\<rparr>]),
             (''want'', []), (''finished'', [])]"
  note t = local_store_follows_mutation[where w = one_book_world and shelf = "''current''"
      and bk = "sample_book ''B2''" and r = PostNetworkError and i = "''B1''" and s = ?s
      and k = "''want''" and b = "sample_book ''B1''"]
  note u = local_store_follows_mutation[where w = reading_world and i = "''B1''" and v = 40
      and t = ?t]
  have h1: "''current'' \<in> set (shelf_names (library one_book_world))"
    by (simp add: shelf_names_def one_book_world_def)
  have h2: "\<not> findBook (library one_book_world) (book_id (sample_book ''B2''))"
    by code_simp
  have h3: "\<forall>n. PostNetworkError \<noteq> PostOk n" by simp
  have h4: "findBook (library one_book_world) ''B1''" by code_simp
  have h5: "library one_book_world = Obj ?s" by (simp add: one_book_world_def)
  have h6: "findBookInShelf (library one_book_world) ''B1'' = Some (''want'', sample_book ''B1'')"
    by (simp add: h5 findBookInShelf_def sample_book_def)
  have h7: "distinct (map fst ?s)" by simp
  have h8: "''current'' \<noteq> ''want''" by simp
  have h9: "stored_library reading_world = Some (Json (Obj ?t))"
    by (simp add: reading_world_def)
  have h10: "all_books ?t = [] @ (sample_book ''B1'')\<lparr>progress := Num 0\<rparr> # []"
    by (simp add: all_books_def)
  have h11: "book_id ((sample_book ''B1'')\<lparr>progress := Num 0\<rparr>) = ''B1''"
    by (simp add: sample_book_def)
  have h12: "''B1'' \<notin> book_id ` set []" by simp
  note tA = t[THEN conjunct1, THEN mp, OF conjI, OF h1 h2]
  note tC = t[THEN conjunct2, THEN conjunct2, THEN conjunct1, THEN mp, OF conjI, OF h5 h6]
  note uD = u[THEN conjunct2, THEN conjunct2, THEN conjunct2, THEN mp, OF h9]
  note 1 = tA[THEN conjunct1]
  note a2 = tA[THEN conjunct2, THEN conjunct2]
  note 2 = a2[THEN conjunct1]
  note a4 = a2[THEN conjunct2, THEN conjunct2]
  note 3 = a4[THEN conjunct1, THEN mp, OF h3]
  note 4 = a4[THEN conjunct2, THEN conjunct2]
  have e4: "library (fst (addBook one_book_world (sample_book ''B2'') ''current'' PostNetworkError)) =
       Obj [(''current'', [(sample_book ''B2'')\<lparr>progress := Num 0\<rparr>]),
            (''want'', [sample_book ''B1'']), (''finished'', [])]"
    by code_simp
  note 5 = tC[THEN conjunct1]
  note c1 = tC[THEN conjunct2]
  note 8 = c1[THEN conjunct1]
  note c2 = c1[THEN conjunct2]
  note 6 = c2[THEN conjunct1]
  note c3 = c2[THEN conjunct2]
  note 7 = c3[THEN conjunct1, THEN spec, THEN mp, OF h8]
  note c5 = c3[THEN conjunct2, THEN conjunct2]
  note 10 = c5[THEN conjunct1, THEN mp, OF h7, THEN conjunct1]
  note 9 = c5[THEN conjunct2, THEN conjunct2]
  have e6: "filter (\<lambda>b. book_id b \<noteq> ''B1'') (shelf_books (library one_book_world) ''want'') = []"
    by (simp add: h5 shelf_books_def sample_book_def)
  have e8: "upd_shelf ''want'' (filter (\<lambda>b. book_id b \<noteq> ''B1'')) ?s = empty_shelves"
    by (simp add: empty_shelves_def sample_book_def)
  note 11 = uD[THEN conjunct1]
  note d1 = uD[THEN conjunct2]
  note 12 = d1[THEN conjunct1]
  note d2 = d1[THEN conjunct2]
  note 13 = d2[THEN conjunct1, THEN spec, THEN spec, THEN spec, THEN mp,
      OF conjI[OF h10 conjI[OF h11 h12]]]
  note 14 = d2[THEN conjunct2, THEN conjunct2]
  have e12: "set_progress ''B1'' (slider_value 40) ?t =
       [(''current'', [(sample_book ''B1'')\<lparr>progress := Num 40\<rparr>]),
        (''want'', []), (''finished'', [])]"
    by (simp add: slider_value_def sample_book_def)
  from 4 e4 have c4: "library (fst (LibraryManager_constructor
         (fst (addBook one_book_world (sample_book ''B2'') ''current'' PostNetworkError)))) =
       Obj [(''current'', [(sample_book ''B2'')\<lparr>progress := Num 0\<rparr>]),
            (''want'', [sample_book ''B1'']), (''finished'', [])]" by simp
  from 6 e6 have c6: "shelf_books (library (fst (removeBook one_book_world ''B1''))) ''want'' = []"
    by simp
  from 9 8 e8 have c9: "library (fst (LibraryManager_constructor
       (fst (removeBook one_book_world ''B1'')))) = Obj empty_shelves" by simp
  from 14 12 e12 have c14: "library (fst (LibraryManager_constructor
         (fst (progress_slider_input reading_world ''B1'' 40)))) =
       Obj [(''current'', [(sample_book ''B1'')\<lparr>progress := Num 40\<rparr>]),
            (''want'', []), (''finished'', [])]" by simp
  show ?thesis
    by (intro conjI;
        fact h1 h2 h3 1 2 3 c4 h4 h5 h6 h7 h8 5 c6 7 10 c9 h9 h10 h11 h12 11 13 c14)
qed

end
